theory Spec2Isabelle
  imports Complex_Main "HOL-Library.Char_ord" "HOL-Library.List_Lexorder"
begin

section \<open>JavaScript values used by the component\<close>

text \<open>
  The repository holds four iterations of one React component \<open>App\<close>:
  \<^item> v1: \<open>unnamed/part_000\<close>, lines 1-468 (presence checks only);
  \<^item> v2: \<open>src/App_backup2.js\<close>, lines 1-530 (amount and date validation);
  \<^item> v3: \<open>src/App_backup2.js\<close>, lines 530-1326 (transaction types);
  \<^item> v4: \<open>unnamed/part_000\<close>, lines 469-1489 (notes, budget, import/export).
  Each definition below carries the suffix of the iteration it is translated from.

  A JavaScript number is \<open>NaN\<close> or a rational: rounding to binary64 and the
  infinities are not modelled. Strings are byte lists compared lexicographically, which
  is JavaScript's code-unit comparison on ASCII text such as ISO dates.
\<close>

datatype jsnum = NaN | Num rat

fun isNaN :: "jsnum \<Rightarrow> bool" where
  "isNaN NaN = True"
| "isNaN (Num r) = False"

text \<open>\<open>x < y\<close> on numbers; any comparison with \<open>NaN\<close> is false.\<close>

fun js_lt :: "jsnum \<Rightarrow> jsnum \<Rightarrow> bool" where
  "js_lt (Num a) (Num b) = (a < b)"
| "js_lt _ _ = False"

fun js_le :: "jsnum \<Rightarrow> jsnum \<Rightarrow> bool" where
  "js_le (Num a) (Num b) = (a \<le> b)"
| "js_le _ _ = False"

fun js_add :: "jsnum \<Rightarrow> jsnum \<Rightarrow> jsnum" where
  "js_add (Num a) (Num b) = Num (a + b)"
| "js_add _ _ = NaN"

fun js_sub :: "jsnum \<Rightarrow> jsnum \<Rightarrow> jsnum" where
  "js_sub (Num a) (Num b) = Num (a - b)"
| "js_sub _ _ = NaN"

fun js_mul :: "jsnum \<Rightarrow> jsnum \<Rightarrow> jsnum" where
  "js_mul (Num a) (Num b) = Num (a * b)"
| "js_mul _ _ = NaN"

text \<open>Truthiness of a number: \<open>0\<close> and \<open>NaN\<close> are falsy.\<close>

fun truthy_num :: "jsnum \<Rightarrow> bool" where
  "truthy_num NaN = False"
| "truthy_num (Num r) = (r \<noteq> 0)"

subsection \<open>Strings\<close>

definition is_space :: "char \<Rightarrow> bool" where
  "is_space c = (c \<in> set [CHR '' '', CHR 0x09, CHR 0x0A, CHR 0x0B, CHR 0x0C, CHR 0x0D])"

text \<open>\<open>s.trim()\<close>.\<close>

definition trim :: "string \<Rightarrow> string" where
  "trim s = rev (dropWhile is_space (rev (dropWhile is_space s)))"

text \<open>\<open>s.toLowerCase()\<close> on ASCII letters.\<close>

definition lower_char :: "char \<Rightarrow> char" where
  "lower_char c =
     (case map_of (zip ''ABCDEFGHIJKLMNOPQRSTUVWXYZ'' ''abcdefghijklmnopqrstuvwxyz'') c of
        None \<Rightarrow> c
      | Some l \<Rightarrow> l)"

definition toLowerCase :: "string \<Rightarrow> string" where
  "toLowerCase s = map lower_char s"

text \<open>\<open>s.startsWith(q)\<close> and \<open>s.includes(q)\<close>.\<close>

fun startsWith :: "string \<Rightarrow> string \<Rightarrow> bool" where
  "startsWith s [] = True"
| "startsWith [] (q # qs) = False"
| "startsWith (c # cs) (q # qs) = (c = q \<and> startsWith cs qs)"

fun includes_str :: "string \<Rightarrow> string \<Rightarrow> bool" where
  "includes_str [] q = (q = [])"
| "includes_str (c # cs) q = (startsWith (c # cs) q \<or> includes_str cs q)"

text \<open>\<open>s.split(c)\<close> for a one-character separator; the result is never empty.\<close>

fun split_on :: "char \<Rightarrow> string \<Rightarrow> string list" where
  "split_on c [] = [[]]"
| "split_on c (x # xs) =
     (if x = c then [] # split_on c xs
      else (case split_on c xs of [] \<Rightarrow> [[x]] | p # ps \<Rightarrow> (x # p) # ps))"

text \<open>\<open>xs[i]\<close> on an array: \<open>None\<close> is \<open>undefined\<close>.\<close>

fun index :: "'a list \<Rightarrow> nat \<Rightarrow> 'a option" where
  "index [] i = None"
| "index (x # xs) 0 = Some x"
| "index (x # xs) (Suc i) = index xs i"

subsection \<open>\<open>Number(s)\<close> on a string\<close>

text \<open>
  The decimal forms of \<open>StringToNumber\<close>: optional white space, an optional sign,
  digits with an optional fraction and an optional exponent. The empty or blank string
  is \<open>0\<close>. Strings outside these forms give \<open>NaN\<close>; among them the forms the model leaves
  out (\<open>Infinity\<close>, hexadecimal, octal and binary literals), which an
  \<open><input type="number">\<close> never delivers.
\<close>

definition is_digit :: "char \<Rightarrow> bool" where
  "is_digit c = (let n = (of_char c :: nat) in 48 \<le> n \<and> n \<le> 57)"

definition digits_val :: "string \<Rightarrow> nat" where
  "digits_val ds = foldl (\<lambda>a c. 10 * a + (of_char c - 48)) 0 ds"

definition not_e :: "char \<Rightarrow> bool" where
  "not_e c = (c \<noteq> CHR ''e'' \<and> c \<noteq> CHR ''E'')"

definition not_dot :: "char \<Rightarrow> bool" where
  "not_dot c = (c \<noteq> CHR ''.'')"

fun exponent_of :: "string \<Rightarrow> int option" where
  "exponent_of [] = Some 0"
| "exponent_of (e # r) =
     (let neg = (case r of [] \<Rightarrow> False | c # _ \<Rightarrow> c = CHR ''-'');
          sgn = (case r of [] \<Rightarrow> False | c # _ \<Rightarrow> c = CHR ''-'' \<or> c = CHR ''+'');
          ds = (if sgn then drop 1 r else r)
      in if ds = [] \<or> \<not> list_all is_digit ds then None
         else Some (if neg then - int (digits_val ds) else int (digits_val ds)))"

definition unsigned_decimal :: "string \<Rightarrow> rat option" where
  "unsigned_decimal s =
     (let mant = takeWhile not_e s;
          ip = takeWhile not_dot mant;
          fp = drop 1 (dropWhile not_dot mant)
      in if \<not> list_all is_digit ip \<or> \<not> list_all is_digit fp \<or> (ip = [] \<and> fp = [])
         then None
         else (case exponent_of (dropWhile not_e s) of
                 None \<Rightarrow> None
               | Some ex \<Rightarrow>
                   Some ((of_nat (digits_val ip) + of_nat (digits_val fp) / 10 ^ length fp)
                         * (if 0 \<le> ex then 10 ^ nat ex else 1 / 10 ^ nat (- ex)))))"

definition Number_str :: "string \<Rightarrow> jsnum" where
  "Number_str s =
     (let t = trim s in
      case t of
        [] \<Rightarrow> Num 0
      | c # r \<Rightarrow>
          if c = CHR ''-'' then (case unsigned_decimal r of None \<Rightarrow> NaN | Some v \<Rightarrow> Num (- v))
          else if c = CHR ''+'' then (case unsigned_decimal r of None \<Rightarrow> NaN | Some v \<Rightarrow> Num v)
          else (case unsigned_decimal t of None \<Rightarrow> NaN | Some v \<Rightarrow> Num v))"

text \<open>
  The \<open>amount\<close> property of a stored record is the form's string in v1 and a number from
  v2 on; \<open>Number(e.amount)\<close> reads either.
\<close>

datatype amt = AStr string | ANum jsnum

fun Number_amt :: "amt \<Rightarrow> jsnum" where
  "Number_amt (AStr s) = Number_str s"
| "Number_amt (ANum n) = n"

section \<open>Data model and component state\<close>

text \<open>
  A transaction object. \<open>eid\<close> is the property \<open>id\<close> and \<open>enotes\<close> the property
  \<open>notes\<close>. The properties that only later iterations write are optional: \<open>None\<close> is
  an absent property.
\<close>

record expense =
  eid :: int
  title :: string
  amount :: amt
  date :: string
  category :: string
  type :: "string option"
  enotes :: "string option"
  createdAt :: "string option"
  updatedAt :: "string option"

text \<open>The add form: the states \<open>title\<close>, \<open>amount\<close>, \<open>date\<close>, \<open>category\<close>,
  \<open>customCategory\<close>, \<open>type\<close> (v3) and \<open>notes\<close> (v4).\<close>

record draft =
  title_in :: string
  amount_in :: string
  date_in :: string
  category_in :: string
  customCategory_in :: string
  type_in :: string
  notes_in :: string

text \<open>The state \<open>editForm\<close> of v1 and v2; \<open>startEdit\<close> copies the stored amount into
  it, the input writes a string.\<close>

record edit_form =
  ef_title :: string
  ef_amount :: amt
  ef_date :: string
  ef_category :: string

text \<open>
  The component state. \<open>alerts\<close> is the log of \<open>alert(msg)\<close> calls (v1-v3),
  \<open>notifications\<close> the log of \<open>showNotification(message, type)\<close> calls (v4), oldest
  first.
\<close>

record app =
  draft :: draft
  expenses :: "expense list"
  editingId :: "int option"
  editForm :: edit_form
  alerts :: "string list"
  notifications :: "(string \<times> string) list"

text \<open>One reading of the clock: \<open>Date.now()\<close> and \<open>new Date().toISOString()\<close>.\<close>

record clock =
  now :: int
  nowISO :: string

text \<open>\<open>new Date().toISOString().split('T')[0]\<close>.\<close>

definition today :: "clock \<Rightarrow> string" where
  "today clk = hd (split_on (CHR ''T'') (nowISO clk))"

definition empty_edit_form :: edit_form where
  "empty_edit_form =
     \<lparr>ef_title = [], ef_amount = AStr [], ef_date = [], ef_category = []\<rparr>"

section \<open>Adding a transaction\<close>

text \<open>\<open>category === "Other" ? customCategory : category\<close>.\<close>

definition finalCategory :: "draft \<Rightarrow> string" where
  "finalCategory d = (if category_in d = ''Other'' then customCategory_in d else category_in d)"

text \<open>\<open>!title || !amount || !date || !category\<close>.\<close>

definition missing_field :: "draft \<Rightarrow> bool" where
  "missing_field d =
     (title_in d = [] \<or> amount_in d = [] \<or> date_in d = [] \<or> category_in d = [])"

text \<open>\<open>isNaN(amountNum) || amountNum <= 0\<close>.\<close>

definition bad_amount :: "jsnum \<Rightarrow> bool" where
  "bad_amount n = (isNaN n \<or> js_le n (Num 0))"

text \<open>The form reset that ends a successful add (v1-v3).\<close>

definition reset_draft :: "clock \<Rightarrow> draft \<Rightarrow> draft" where
  "reset_draft clk d =
     d\<lparr>title_in := [], amount_in := [], category_in := [], customCategory_in := [],
       date_in := today clk\<rparr>"

text \<open>v1, \<open>unnamed/part_000\<close> lines 62-85.\<close>

definition addExpense_v1 :: "clock \<Rightarrow> app \<Rightarrow> app" where
  "addExpense_v1 clk st =
     (let d = draft st in
      if missing_field d then st
      else if finalCategory d = [] then st
      else st\<lparr>expenses := expenses st @
                 [\<lparr>eid = now clk, title = title_in d, amount = AStr (amount_in d),
                   date = date_in d, category = finalCategory d, type = None, enotes = None,
                   createdAt = None, updatedAt = None\<rparr>],
               draft := reset_draft clk d\<rparr>)"

text \<open>v2, \<open>src/App_backup2.js\<close> lines 50-87.\<close>

definition addExpense_v2 :: "clock \<Rightarrow> app \<Rightarrow> app" where
  "addExpense_v2 clk st =
     (let d = draft st; amountNum = Number_str (amount_in d) in
      if missing_field d then st
      else if bad_amount amountNum
        then st\<lparr>alerts := alerts st @ [''Please enter a valid positive amount'']\<rparr>
      else if today clk < date_in d
        then st\<lparr>alerts := alerts st @ [''Cannot add expenses for future dates'']\<rparr>
      else if finalCategory d = [] then st
      else st\<lparr>expenses := expenses st @
                 [\<lparr>eid = now clk, title = title_in d, amount = ANum amountNum,
                   date = date_in d, category = finalCategory d, type = None, enotes = None,
                   createdAt = None, updatedAt = None\<rparr>],
               draft := reset_draft clk d\<rparr>)"

text \<open>v3, \<open>src/App_backup2.js\<close> lines 590-632.\<close>

definition addExpense_v3 :: "clock \<Rightarrow> app \<Rightarrow> app" where
  "addExpense_v3 clk st =
     (let d = draft st; amountNum = Number_str (amount_in d) in
      if missing_field d then st\<lparr>alerts := alerts st @ [''Please fill all fields'']\<rparr>
      else if bad_amount amountNum then st\<lparr>alerts := alerts st @ [''Enter valid amount'']\<rparr>
      else if today clk < date_in d
        then st\<lparr>alerts := alerts st @ [''Cannot add future dates'']\<rparr>
      else if finalCategory d = [] then st\<lparr>alerts := alerts st @ [''Enter category'']\<rparr>
      else st\<lparr>expenses := expenses st @
                 [\<lparr>eid = now clk, title = title_in d, amount = ANum amountNum,
                   date = date_in d, category = finalCategory d, type = Some (type_in d),
                   enotes = None, createdAt = None, updatedAt = None\<rparr>],
               draft := (reset_draft clk d)\<lparr>type_in := ''expense''\<rparr>\<rparr>)"

text \<open>
  v4, \<open>unnamed/part_000\<close> lines 598-635. The category is stored as selected (there is no
  custom category), the new record goes to the front, and the form is reset without
  touching the custom category.
\<close>

definition addExpense_v4 :: "clock \<Rightarrow> app \<Rightarrow> app" where
  "addExpense_v4 clk st =
     (let d = draft st; amountNum = Number_str (amount_in d) in
      if missing_field d
        then st\<lparr>notifications := notifications st @
                   [(''Please fill in all required fields'', ''error'')]\<rparr>
      else if bad_amount amountNum
        then st\<lparr>notifications := notifications st @
                   [(''Please enter a valid positive amount'', ''error'')]\<rparr>
      else if today clk < date_in d
        then st\<lparr>notifications := notifications st @
                   [(''Cannot add expenses for future dates'', ''error'')]\<rparr>
      else st\<lparr>expenses :=
                 \<lparr>eid = now clk, title = title_in d, amount = ANum amountNum,
                  date = date_in d, category = category_in d, type = None,
                  enotes = Some (notes_in d), createdAt = Some (nowISO clk),
                  updatedAt = None\<rparr> # expenses st,
               notifications := notifications st @ [(''Expense added successfully!'', ''success'')],
               draft := d\<lparr>title_in := [], amount_in := [], category_in := [], notes_in := [],
                          date_in := today clk\<rparr>\<rparr>)"

section \<open>Editing, deleting and clearing\<close>

text \<open>\<open>cancelEdit\<close>: leave the edit mode and blank the edit form.\<close>

definition cancelEdit :: "app \<Rightarrow> app" where
  "cancelEdit st = st\<lparr>editingId := None, editForm := empty_edit_form\<rparr>"

text \<open>
  \<open>{ ...e, ...editForm }\<close> in v1 and v2: the edit form's \<open>title\<close>, \<open>amount\<close>, \<open>date\<close>
  and \<open>category\<close> overwrite the record's; in v2 \<open>amount: amountNum\<close> overwrites the amount
  again.
\<close>

definition merge_edit :: "edit_form \<Rightarrow> amt \<Rightarrow> expense \<Rightarrow> expense" where
  "merge_edit ef a e =
     e\<lparr>title := ef_title ef, amount := a, date := ef_date ef, category := ef_category ef\<rparr>"

text \<open>v1, \<open>unnamed/part_000\<close> lines 106-113: no check at all.\<close>

definition saveEdit_v1 :: "int \<Rightarrow> app \<Rightarrow> app" where
  "saveEdit_v1 i st =
     cancelEdit (st\<lparr>expenses :=
       map (\<lambda>e. if eid e = i then merge_edit (editForm st) (ef_amount (editForm st)) e else e)
           (expenses st)\<rparr>)"

text \<open>v2, \<open>src/App_backup2.js\<close> lines 108-129.\<close>

definition saveEdit_v2 :: "clock \<Rightarrow> int \<Rightarrow> app \<Rightarrow> app" where
  "saveEdit_v2 clk i st =
     (let ef = editForm st; amountNum = Number_amt (ef_amount ef) in
      if bad_amount amountNum
        then st\<lparr>alerts := alerts st @ [''Please enter a valid positive amount'']\<rparr>
      else if today clk < ef_date ef
        then st\<lparr>alerts := alerts st @ [''Cannot set expense date to future'']\<rparr>
      else cancelEdit (st\<lparr>expenses :=
             map (\<lambda>e. if eid e = i then merge_edit ef (ANum amountNum) e else e)
                 (expenses st)\<rparr>))"

text \<open>\<open>deleteExpense\<close> of v1-v3: \<open>expenses.filter((e) => e.id !== id)\<close>.\<close>

definition deleteExpense :: "int \<Rightarrow> app \<Rightarrow> app" where
  "deleteExpense i st = st\<lparr>expenses := filter (\<lambda>e. eid e \<noteq> i) (expenses st)\<rparr>"

text \<open>\<open>clearAll\<close> of v1-v3; the argument is the answer of \<open>window.confirm\<close>.\<close>

definition clearAll :: "bool \<Rightarrow> app \<Rightarrow> app" where
  "clearAll confirmed st = (if confirmed then st\<lparr>expenses := []\<rparr> else st)"

text \<open>The component before anything was added: an empty collection and blank forms.\<close>

definition blank_draft :: "clock \<Rightarrow> draft" where
  "blank_draft clk =
     \<lparr>title_in = [], amount_in = [], date_in = today clk, category_in = [],
      customCategory_in = [], type_in = ''expense'', notes_in = []\<rparr>"

definition init_app :: "clock \<Rightarrow> app" where
  "init_app clk =
     \<lparr>draft = blank_draft clk, expenses = [], editingId = None, editForm = empty_edit_form,
      alerts = [], notifications = []\<rparr>"

text \<open>
  The states of v2 that user actions reach from the empty collection. The user may type
  anything into the two forms, the clock may advance between actions (the ISO date never
  decreases), and each handler runs to completion.
\<close>

inductive reachable_v2 :: "clock \<Rightarrow> app \<Rightarrow> bool" where
  start: "reachable_v2 clk (init_app clk)"
| typing: "reachable_v2 clk st \<Longrightarrow> reachable_v2 clk (st\<lparr>draft := d\<rparr>)"
| editing: "reachable_v2 clk st \<Longrightarrow> reachable_v2 clk (st\<lparr>editingId := x, editForm := ef\<rparr>)"
| tick: "reachable_v2 clk st \<Longrightarrow> today clk \<le> today clk' \<Longrightarrow> reachable_v2 clk' st"
| add: "reachable_v2 clk st \<Longrightarrow> reachable_v2 clk (addExpense_v2 clk st)"
| update: "reachable_v2 clk st \<Longrightarrow> reachable_v2 clk (saveEdit_v2 clk i st)"
| remove: "reachable_v2 clk st \<Longrightarrow> reachable_v2 clk (deleteExpense i st)"
| clear: "reachable_v2 clk st \<Longrightarrow> reachable_v2 clk (clearAll b st)"

code_pred reachable_v2 .

text \<open>The data-model invariants of one record, read against the current date.\<close>

definition positive_amount :: "expense \<Rightarrow> bool" where
  "positive_amount e = (case amount e of ANum (Num r) \<Rightarrow> 0 < r | _ \<Rightarrow> False)"

definition not_future :: "clock \<Rightarrow> expense \<Rightarrow> bool" where
  "not_future clk e = (\<not> today clk < date e)"

definition record_ok :: "clock \<Rightarrow> expense \<Rightarrow> bool" where
  "record_ok clk e =
     (positive_amount e \<and> not_future clk e \<and> title e \<noteq> [] \<and> category e \<noteq> [])"

text \<open>A candidate that passes every check of \<open>addExpense\<close> (v2, v3).\<close>

definition valid_candidate :: "clock \<Rightarrow> draft \<Rightarrow> bool" where
  "valid_candidate clk d =
     (\<not> missing_field d \<and> \<not> bad_amount (Number_str (amount_in d)) \<and>
      \<not> today clk < date_in d \<and> finalCategory d \<noteq> [])"

text \<open>The same for v4, which has no custom category to resolve.\<close>

definition valid_candidate_v4 :: "clock \<Rightarrow> draft \<Rightarrow> bool" where
  "valid_candidate_v4 clk d =
     (\<not> missing_field d \<and> \<not> bad_amount (Number_str (amount_in d)) \<and>
      \<not> today clk < date_in d)"

text \<open>
  The candidates the add operation is required to refuse: an amount that is not a
  positive number, a date after the current date, an empty title, or a category that is
  empty or left unresolved.
\<close>

definition refused_candidate :: "clock \<Rightarrow> draft \<Rightarrow> bool" where
  "refused_candidate clk d =
     (bad_amount (Number_str (amount_in d)) \<or> today clk < date_in d \<or>
      title_in d = [] \<or> finalCategory d = [])"

text \<open>Concrete inputs used in the examples.\<close>

definition clk0 :: clock where
  "clk0 = \<lparr>now = 1000, nowISO = ''2024-03-10T12:00:00.000Z''\<rparr>"

definition clk1 :: clock where
  "clk1 = \<lparr>now = 2000, nowISO = ''2024-03-11T09:30:00.000Z''\<rparr>"

definition lunch :: draft where
  "lunch =
     \<lparr>title_in = ''Lunch'', amount_in = ''250'', date_in = ''2024-03-09'',
      category_in = ''Food'', customCategory_in = [], type_in = ''expense'',
      notes_in = ''team''\<rparr>"

definition bad_lunch :: draft where
  "bad_lunch = lunch\<lparr>title_in := [], amount_in := ''-5''\<rparr>"

definition lunch_record :: expense where
  "lunch_record =
     \<lparr>eid = 1000, title = ''Lunch'', amount = ANum (Num 250), date = ''2024-03-09'',
      category = ''Food'', type = None, enotes = None, createdAt = None, updatedAt = None\<rparr>"

text \<open>The v2 state after \<open>lunch\<close> was added to the empty collection.\<close>

definition one_lunch :: app where
  "one_lunch = addExpense_v2 clk0 ((init_app clk0)\<lparr>draft := lunch\<rparr>)"

text \<open>The v1 state after \<open>lunch\<close> was added to the empty collection.\<close>

definition one_lunch_v1 :: app where
  "one_lunch_v1 = addExpense_v1 clk0 ((init_app clk0)\<lparr>draft := lunch\<rparr>)"

text \<open>Three edit forms: blanked text fields, a negative amount, a proper change.\<close>

definition blank_edit :: edit_form where
  "blank_edit =
     \<lparr>ef_title = [], ef_amount = AStr ''250'', ef_date = [], ef_category = []\<rparr>"

definition negative_edit :: edit_form where
  "negative_edit =
     \<lparr>ef_title = ''Lunch'', ef_amount = AStr ''-5'', ef_date = ''2024-03-09'',
      ef_category = ''Food''\<rparr>"

definition dinner_edit :: edit_form where
  "dinner_edit =
     \<lparr>ef_title = ''Dinner'', ef_amount = AStr ''250'', ef_date = ''2024-03-09'',
      ef_category = ''Food''\<rparr>"

text \<open>v2: \<open>lunch\<close> added twice under one clock reading; \<open>lunch\<close> added, then blanked
  in the edit form.\<close>

definition two_lunches :: app where
  "two_lunches = addExpense_v2 clk0 (one_lunch\<lparr>draft := lunch\<rparr>)"

definition blanked_lunch :: app where
  "blanked_lunch =
     saveEdit_v2 clk0 1000 (one_lunch\<lparr>editingId := Some 1000, editForm := blank_edit\<rparr>)"

section \<open>The view pipeline\<close>

text \<open>
  \<open>Array.prototype.sort(comparator)\<close>. ECMAScript fixes the result (a stable sort) only
  for a consistent comparator and leaves the order implementation-defined otherwise. The
  model is the insertion sort that takes the elements from left to right and calls
  \<open>comparator(new, placed)\<close>, moving the new element in front of the first placed
  element for which the result is negative; this is the order of calls of V8's insertion
  step. A \<open>NaN\<close> result counts as \<open>0\<close>.
\<close>

definition negative :: "jsnum \<Rightarrow> bool" where
  "negative v = js_lt v (Num 0)"

fun insert_js :: "('a \<Rightarrow> 'a \<Rightarrow> jsnum) \<Rightarrow> 'a \<Rightarrow> 'a list \<Rightarrow> 'a list" where
  "insert_js cmp x [] = [x]"
| "insert_js cmp x (y # ys) = (if negative (cmp x y) then x # y # ys else y # insert_js cmp x ys)"

definition sort_js :: "('a \<Rightarrow> 'a \<Rightarrow> jsnum) \<Rightarrow> 'a list \<Rightarrow> 'a list" where
  "sort_js cmp xs = foldl (\<lambda>placed x. insert_js cmp x placed) [] xs"

text \<open>
  \<open>a.localeCompare(b)\<close> as the three-way code-unit comparison. On the digits and hyphens
  of month keys this is the locale's order; collation of other text is not modelled.
\<close>

definition localeCompare :: "string \<Rightarrow> string \<Rightarrow> jsnum" where
  "localeCompare a b = (if a < b then Num (- 1) else if b < a then Num 1 else Num 0)"

text \<open>The filter and sort controls.\<close>

record params =
  selectedMonth :: string
  filterType :: string
  search :: string
  sortBy :: string
  sortDir :: string

text \<open>\<open>e.date && e.date.split("-")[1] === selectedMonth\<close>.\<close>

definition month_matches :: "string \<Rightarrow> expense \<Rightarrow> bool" where
  "month_matches m e = (date e \<noteq> [] \<and> index (split_on (CHR ''-'') (date e)) 1 = Some m)"

text \<open>\<open>e.title.toLowerCase().includes(q)\<close>.\<close>

definition title_matches :: "string \<Rightarrow> expense \<Rightarrow> bool" where
  "title_matches q e = includes_str (toLowerCase (title e)) q"

text \<open>
  The comparator of v1, \<open>unnamed/part_000\<close> lines 142-152:
  \<open>sortDir === "asc" ? (x > y ? 1 : -1) : x < y ? 1 : -1\<close>.
\<close>

definition compare_v1 :: "string \<Rightarrow> string \<Rightarrow> expense \<Rightarrow> expense \<Rightarrow> jsnum" where
  "compare_v1 sb sd a b =
     (if sb = ''amount''
      then (let x = Number_amt (amount a); y = Number_amt (amount b) in
            if sd = ''asc'' then (if js_lt y x then Num 1 else Num (- 1))
            else (if js_lt x y then Num 1 else Num (- 1)))
      else (let x = date a; y = date b in
            if sd = ''asc'' then (if y < x then Num 1 else Num (- 1))
            else (if x < y then Num 1 else Num (- 1))))"

text \<open>The comparator of v2 and v3, \<open>src/App_backup2.js\<close> lines 158-170 and 702-708.\<close>

definition compare_v2 :: "string \<Rightarrow> string \<Rightarrow> expense \<Rightarrow> expense \<Rightarrow> jsnum" where
  "compare_v2 sb sd a b =
     (if sb = ''amount''
      then (let x = Number_amt (amount a); y = Number_amt (amount b) in
            if js_lt x y then (if sd = ''asc'' then Num (- 1) else Num 1)
            else if js_lt y x then (if sd = ''asc'' then Num 1 else Num (- 1))
            else Num 0)
      else (let x = date a; y = date b in
            if x < y then (if sd = ''asc'' then Num (- 1) else Num 1)
            else if y < x then (if sd = ''asc'' then Num 1 else Num (- 1))
            else Num 0))"

text \<open>v1, \<open>unnamed/part_000\<close> lines 128-153.\<close>

definition view_v1 :: "params \<Rightarrow> expense list \<Rightarrow> expense list" where
  "view_v1 p xs =
     (let view = (if selectedMonth p \<noteq> [] then filter (month_matches (selectedMonth p)) xs
                  else xs);
          view = (if trim (search p) \<noteq> []
                  then filter (title_matches (toLowerCase (search p))) view else view)
      in if sortBy p \<noteq> [] then sort_js (compare_v1 (sortBy p) (sortDir p)) view else view)"

text \<open>v2, \<open>src/App_backup2.js\<close> lines 144-171.\<close>

definition view_v2 :: "params \<Rightarrow> expense list \<Rightarrow> expense list" where
  "view_v2 p xs =
     (let view = (if selectedMonth p \<noteq> [] then filter (month_matches (selectedMonth p)) xs
                  else xs);
          view = (if trim (search p) \<noteq> []
                  then filter (title_matches (toLowerCase (search p))) view else view)
      in if sortBy p \<noteq> [] then sort_js (compare_v2 (sortBy p) (sortDir p)) view else view)"

text \<open>\<open>e.type === "expense" || !e.type\<close>.\<close>

definition is_expense :: "expense \<Rightarrow> bool" where
  "is_expense e = (type e = Some ''expense'' \<or> type e = None \<or> type e = Some [])"

text \<open>v3, \<open>src/App_backup2.js\<close> lines 684-709.\<close>

definition view_v3 :: "params \<Rightarrow> expense list \<Rightarrow> expense list" where
  "view_v3 p xs =
     (let view = (if selectedMonth p \<noteq> [] then filter (month_matches (selectedMonth p)) xs
                  else xs);
          view = (if filterType p \<noteq> ''all''
                  then (if filterType p = ''expense'' then filter is_expense view
                        else if filterType p = ''income''
                          then filter (\<lambda>e. type e = Some ''income'') view
                        else view)
                  else view);
          view = (if trim (search p) \<noteq> []
                  then filter (title_matches (toLowerCase (search p))) view else view)
      in if sortBy p \<noteq> [] then sort_js (compare_v2 (sortBy p) (sortDir p)) view else view)"

text \<open>
  v4 reads dates through the host's \<open>Date\<close>: what it accepts beyond ISO dates and the
  month it reports depend on the engine and the time zone, so both are taken from the
  host. \<open>getMonth s\<close> is \<open>new Date(s).getMonth()\<close> (\<open>None\<close> for \<open>NaN\<close>), \<open>getTime s\<close> the time
  value of \<open>new Date(s)\<close>.
\<close>

record host =
  getMonth :: "string \<Rightarrow> nat option"
  getTime :: "string \<Rightarrow> jsnum"

text \<open>\<open>n.toString()\<close> for a natural number and \<open>s.padStart(2, '0')\<close>.\<close>

function decimal :: "nat \<Rightarrow> string" where
  "decimal n = (if n < 10 then [''0123456789'' ! n]
                else decimal (n div 10) @ [''0123456789'' ! (n mod 10)])"
  by pat_completeness auto
termination
  by (relation "measure (\<lambda>n. n)") auto

declare decimal.simps [simp del]

definition padStart2 :: "string \<Rightarrow> string" where
  "padStart2 s = replicate (2 - length s) (CHR ''0'') @ s"

text \<open>\<open>(new Date(e.date).getMonth() + 1).toString().padStart(2, '0') === selectedMonth\<close>.\<close>

definition month_matches_v4 :: "host \<Rightarrow> string \<Rightarrow> expense \<Rightarrow> bool" where
  "month_matches_v4 h m e =
     ((case getMonth h (date e) of None \<Rightarrow> ''NaN'' | Some k \<Rightarrow> padStart2 (decimal (k + 1))) = m)"

text \<open>The search of v4 also looks into the category and, when present, the notes.\<close>

definition text_matches_v4 :: "string \<Rightarrow> expense \<Rightarrow> bool" where
  "text_matches_v4 q e =
     (includes_str (toLowerCase (title e)) q \<or> includes_str (toLowerCase (category e)) q \<or>
      (case enotes e of None \<Rightarrow> False
       | Some n \<Rightarrow> n \<noteq> [] \<and> includes_str (toLowerCase n) q))"

text \<open>The comparator of v4, \<open>unnamed/part_000\<close> lines 776-786.\<close>

definition compare_v4 :: "host \<Rightarrow> string \<Rightarrow> string \<Rightarrow> expense \<Rightarrow> expense \<Rightarrow> jsnum" where
  "compare_v4 h sb sd a b =
     (let multiplier = (if sd = ''asc'' then Num 1 else Num (- 1)) in
      if sb = ''amount''
        then js_mul (js_sub (Number_amt (amount a)) (Number_amt (amount b))) multiplier
      else if sb = ''title'' then js_mul (localeCompare (title a) (title b)) multiplier
      else js_mul (js_sub (getTime h (date a)) (getTime h (date b))) multiplier)"

text \<open>v4, \<open>unnamed/part_000\<close> lines 756-786: there is no type filter, and the sort always
  runs.\<close>

definition view_v4 :: "host \<Rightarrow> params \<Rightarrow> expense list \<Rightarrow> expense list" where
  "view_v4 h p xs =
     (let filtered = xs;
          filtered = (if selectedMonth p \<noteq> []
                      then filter (month_matches_v4 h (selectedMonth p)) filtered
                      else filtered);
          filtered = (if trim (search p) \<noteq> []
                      then filter (text_matches_v4 (toLowerCase (search p))) filtered
                      else filtered)
      in sort_js (compare_v4 h (sortBy p) (sortDir p)) filtered)"

text \<open>
  The four stages as functions of their own parameter; an absent parameter (empty month,
  a type other than \<open>expense\<close> or \<open>income\<close>, blank search text, empty sort field) makes
  the stage the identity.
\<close>

definition month_filter :: "string \<Rightarrow> expense list \<Rightarrow> expense list" where
  "month_filter m xs = (if m = [] then xs else filter (month_matches m) xs)"

definition type_filter :: "string \<Rightarrow> expense list \<Rightarrow> expense list" where
  "type_filter t xs =
     (if t = ''expense'' then filter is_expense xs
      else if t = ''income'' then filter (\<lambda>e. type e = Some ''income'') xs
      else xs)"

definition search_filter :: "string \<Rightarrow> expense list \<Rightarrow> expense list" where
  "search_filter s xs =
     (if trim s = [] then xs else filter (title_matches (toLowerCase s)) xs)"

definition sort_stage :: "string \<Rightarrow> string \<Rightarrow> expense list \<Rightarrow> expense list" where
  "sort_stage sb sd xs = (if sb = [] then xs else sort_js (compare_v2 sb sd) xs)"

definition month_filter_v4 :: "host \<Rightarrow> string \<Rightarrow> expense list \<Rightarrow> expense list" where
  "month_filter_v4 h m xs = (if m = [] then xs else filter (month_matches_v4 h m) xs)"

definition search_filter_v4 :: "string \<Rightarrow> expense list \<Rightarrow> expense list" where
  "search_filter_v4 s xs =
     (if trim s = [] then xs else filter (text_matches_v4 (toLowerCase s)) xs)"

definition sort_stage_v4 :: "host \<Rightarrow> string \<Rightarrow> string \<Rightarrow> expense list \<Rightarrow> expense list" where
  "sort_stage_v4 h sb sd xs = sort_js (compare_v4 h sb sd) xs"

text \<open>
  An example host: the UTC time zone, with a parser that accepts exactly the calendar
  dates \<open>YYYY-MM-DD\<close>. \<open>days_from_civil\<close> counts the days since 1970-01-01.
\<close>

definition is_leap :: "int \<Rightarrow> bool" where
  "is_leap y = (y mod 4 = 0 \<and> (y mod 100 \<noteq> 0 \<or> y mod 400 = 0))"

definition days_in_month :: "int \<Rightarrow> int \<Rightarrow> int" where
  "days_in_month y m =
     (if m = 2 then (if is_leap y then 29 else 28)
      else if m = 4 \<or> m = 6 \<or> m = 9 \<or> m = 11 then 30 else 31)"

definition days_from_civil :: "int \<Rightarrow> int \<Rightarrow> int \<Rightarrow> int" where
  "days_from_civil y m d =
     (let y' = (if m \<le> 2 then y - 1 else y);
          era = y' div 400;
          yoe = y' - era * 400;
          doy = (153 * (if 2 < m then m - 3 else m + 9) + 2) div 5 + d - 1;
          doe = yoe * 365 + yoe div 4 - yoe div 100 + doy
      in era * 146097 + doe - 719468)"

fun parse_iso_date :: "string \<Rightarrow> (int \<times> int \<times> int) option" where
  "parse_iso_date [y1, y2, y3, y4, h1, m1, m2, h2, d1, d2] =
     (let y = int (digits_val [y1, y2, y3, y4]); m = int (digits_val [m1, m2]);
          d = int (digits_val [d1, d2])
      in if list_all is_digit [y1, y2, y3, y4, m1, m2, d1, d2] \<and> h1 = CHR ''-'' \<and>
            h2 = CHR ''-'' \<and> 1 \<le> m \<and> m \<le> 12 \<and> 1 \<le> d \<and> d \<le> days_in_month y m
         then Some (y, m, d) else None)"
| "parse_iso_date s = None"

definition utc_host :: host where
  "utc_host =
     \<lparr>getMonth = (\<lambda>s. case parse_iso_date s of None \<Rightarrow> None
                       | Some (y, m, d) \<Rightarrow> Some (nat (m - 1))),
      getTime = (\<lambda>s. case parse_iso_date s of None \<Rightarrow> NaN
                      | Some (y, m, d) \<Rightarrow> Num (of_int (days_from_civil y m d * 86400000)))\<rparr>"

text \<open>Records and controls used in the examples.\<close>

definition coffee :: expense where
  "coffee =
     \<lparr>eid = 1, title = ''Coffee'', amount = ANum (Num 40), date = ''2024-03-01'',
      category = ''Food'', type = Some ''expense'', enotes = Some [], createdAt = None,
      updatedAt = None\<rparr>"

definition tea :: expense where
  "tea =
     \<lparr>eid = 2, title = ''Tea'', amount = ANum (Num 40), date = ''2024-03-02'',
      category = ''Food'', type = Some ''expense'', enotes = Some [], createdAt = None,
      updatedAt = None\<rparr>"

definition salary :: expense where
  "salary =
     \<lparr>eid = 3, title = ''Salary'', amount = ANum (Num 5000), date = ''2024-02-28'',
      category = ''Salary'', type = Some ''income'', enotes = Some [], createdAt = None,
      updatedAt = None\<rparr>"

definition by_amount_asc :: params where
  "by_amount_asc =
     \<lparr>selectedMonth = [], filterType = ''all'', search = [], sortBy = ''amount'',
      sortDir = ''asc''\<rparr>"

definition march_expenses :: params where
  "march_expenses =
     \<lparr>selectedMonth = ''03'', filterType = ''expense'', search = ''E'', sortBy = ''date'',
      sortDir = ''desc''\<rparr>"

section \<open>Monthly aggregates\<close>

text \<open>An entry of \<open>monthMap\<close> (v3) and, extended by \<open>spending\<close> and \<open>total\<close>, of \<open>barData\<close>.\<close>

record month_row =
  month :: string
  expense :: jsnum
  income :: jsnum
  investment :: jsnum

record bar_row = month_row +
  spending :: jsnum
  total :: jsnum

text \<open>The branch on \<open>e.type\<close> that adds \<open>Number(e.amount)\<close> to one of the three sums.\<close>

definition add_to_row :: "expense \<Rightarrow> month_row \<Rightarrow> month_row" where
  "add_to_row e r =
     (if type e = Some ''income'' then r\<lparr>income := js_add (income r) (Number_amt (amount e))\<rparr>
      else if type e = Some ''investment''
        then r\<lparr>investment := js_add (investment r) (Number_amt (amount e))\<rparr>
      else r\<lparr>expense := js_add (expense r) (Number_amt (amount e))\<rparr>)"

text \<open>
  One round of the \<open>forEach\<close> of v3, \<open>src/App_backup2.js\<close> lines 759-772. The object
  \<open>monthMap\<close> is the list of its entries in insertion order; \<open>e.date?.slice(0, 7)\<close> is
  \<open>take 7\<close>, and \<open>if (!m) return\<close> skips the record with an empty date. Keys that are
  names of members of \<open>Object.prototype\<close> are not modelled, nor is the place that
  \<open>Object.values\<close> gives to keys that look like array indices; the sort that follows does
  not depend on the order of the entries, whose keys are distinct.
\<close>

definition monthMap_step :: "month_row list \<Rightarrow> expense \<Rightarrow> month_row list" where
  "monthMap_step rows e =
     (let m = take 7 (date e) in
      if m = [] then rows
      else map (\<lambda>r. if month r = m then add_to_row e r else r)
             (if list_ex (\<lambda>r. month r = m) rows then rows
              else rows @ [\<lparr>month = m, expense = Num 0, income = Num 0, investment = Num 0\<rparr>]))"

definition monthMap_v3 :: "expense list \<Rightarrow> month_row list" where
  "monthMap_v3 view = foldl monthMap_step [] view"

text \<open>\<open>barData\<close> of v3, \<open>src/App_backup2.js\<close> lines 774-780.\<close>

definition barData_v3 :: "expense list \<Rightarrow> bar_row list" where
  "barData_v3 view =
     map (\<lambda>item. month_row.extend item
                  (bar_row.fields (js_add (expense item) (investment item))
                     (js_add (js_add (income item) (expense item)) (investment item))))
       (sort_js (\<lambda>a b. localeCompare (month a) (month b)) (monthMap_v3 view))"

text \<open>\<open>obj[k] = v\<close> on the entries of an object: in place for a known key, at the end for a
  new one.\<close>

fun assign :: "string \<Rightarrow> jsnum \<Rightarrow> (string \<times> jsnum) list \<Rightarrow> (string \<times> jsnum) list" where
  "assign k v [] = [(k, v)]"
| "assign k v (p # ps) = (if fst p = k then (k, v) # ps else p # assign k v ps)"

text \<open>
  One round of the \<open>forEach\<close> of v4, \<open>unnamed/part_000\<close> lines 807-810:
  \<open>monthlyData[monthKey] = (monthlyData[monthKey] || 0) + Number(e.amount)\<close> with
  \<open>monthKey = e.date.slice(0, 7)\<close>; there is no guard on the key.
\<close>

definition monthlyData_step :: "(string \<times> jsnum) list \<Rightarrow> expense \<Rightarrow> (string \<times> jsnum) list" where
  "monthlyData_step entries e =
     (let monthKey = take 7 (date e);
          prev = (case map_of entries monthKey of
                    None \<Rightarrow> Num 0
                  | Some v \<Rightarrow> if truthy_num v then v else Num 0)
      in assign monthKey (js_add prev (Number_amt (amount e))) entries)"

definition monthlyData :: "expense list \<Rightarrow> (string \<times> jsnum) list" where
  "monthlyData view = foldl monthlyData_step [] view"

text \<open>\<open>barData\<close> of v4 for \<open>timeRange === "monthly"\<close>, lines 824-827: the pairs are the
  objects \<open>{ month, total }\<close>.\<close>

definition barData_v4 :: "expense list \<Rightarrow> (string \<times> jsnum) list" where
  "barData_v4 view = sort_js (\<lambda>a b. localeCompare (fst a) (fst b)) (monthlyData view)"

text \<open>The sum of a list of numbers, added from the left starting at \<open>0\<close>.\<close>

definition js_sum :: "jsnum list \<Rightarrow> jsnum" where
  "js_sum ns = foldl js_add (Num 0) ns"

text \<open>The amounts of the records of a view that fall into the bucket \<open>k\<close> and satisfy \<open>P\<close>.\<close>

definition bucket_amounts :: "(expense \<Rightarrow> bool) \<Rightarrow> string \<Rightarrow> expense list \<Rightarrow> jsnum list" where
  "bucket_amounts P k view =
     map (\<lambda>e. Number_amt (amount e)) (filter (\<lambda>e. take 7 (date e) = k \<and> P e) view)"

definition is_income :: "expense \<Rightarrow> bool" where
  "is_income e = (type e = Some ''income'')"

definition is_investment :: "expense \<Rightarrow> bool" where
  "is_investment e = (type e \<noteq> Some ''income'' \<and> type e = Some ''investment'')"

definition is_other :: "expense \<Rightarrow> bool" where
  "is_other e = (type e \<noteq> Some ''income'' \<and> type e \<noteq> Some ''investment'')"

text \<open>The sum that \<open>monthMap\<close> holds for the key \<open>m\<close> in the property read by \<open>sel\<close>
  (\<open>0\<close> while the key is absent).\<close>

definition row_value :: "(month_row \<Rightarrow> jsnum) \<Rightarrow> string \<Rightarrow> month_row list \<Rightarrow> jsnum" where
  "row_value sel m rows =
     (case find (\<lambda>r. month r = m) rows of None \<Rightarrow> Num 0 | Some r \<Rightarrow> sel r)"

definition entry_value :: "string \<Rightarrow> (string \<times> jsnum) list \<Rightarrow> jsnum" where
  "entry_value k entries = (case map_of entries k of None \<Rightarrow> Num 0 | Some v \<Rightarrow> v)"

definition no_filter :: params where
  "no_filter =
     \<lparr>selectedMonth = [], filterType = ''all'', search = [], sortBy = [], sortDir = ''asc''\<rparr>"

text \<open>A view with one income, two expenses and one record without a date.\<close>

definition sample_view :: "expense list" where
  "sample_view = [salary, coffee, tea, tea\<lparr>eid := 4, date := []\<rparr>]"

text \<open>
  Ascending or descending order of a key, and the sort key \<open>Number(e.amount)\<close> as a
  rational (for amounts that are numbers).
\<close>

definition in_order :: "bool \<Rightarrow> ('a \<Rightarrow> 'k::linorder) \<Rightarrow> 'a \<Rightarrow> 'a \<Rightarrow> bool" where
  "in_order up f a b = (if up then f a \<le> f b else f b \<le> f a)"

definition before :: "bool \<Rightarrow> ('a \<Rightarrow> 'k::linorder) \<Rightarrow> 'a \<Rightarrow> 'a \<Rightarrow> bool" where
  "before up f a b = (if up then f a < f b else f b < f a)"

definition amount_value :: "expense \<Rightarrow> rat" where
  "amount_value e = (case Number_amt (amount e) of NaN \<Rightarrow> 0 | Num r \<Rightarrow> r)"

section \<open>Properties\<close>

subsection \<open>Evaluation of the examples\<close>

lemmas num_eval = Number_str_def trim_def is_space_def unsigned_decimal_def not_e_def not_dot_def
  is_digit_def digits_val_def Let_def

lemma today_clk0: "today clk0 = ''2024-03-10''"
  by (simp add: today_def clk0_def)

lemma today_clk1: "today clk1 = ''2024-03-11''"
  by (simp add: today_def clk1_def)

lemma now_clk0: "now clk0 = 1000"
  by (simp add: clk0_def)

lemma now_clk1: "now clk1 = 2000"
  by (simp add: clk1_def)

lemma Number_lunch: "Number_str ''250'' = Num 250"
  by (simp add: num_eval)

lemma Number_minus5: "Number_str ''-5'' = Num (- 5)"
  by (simp add: num_eval)

lemma lunch_valid: "valid_candidate clk0 lunch"
  by (simp add: valid_candidate_def lunch_def missing_field_def finalCategory_def today_clk0
      Number_lunch bad_amount_def)

lemma lunch_valid_v4: "valid_candidate_v4 clk0 lunch"
  by (simp add: valid_candidate_v4_def lunch_def missing_field_def today_clk0
      Number_lunch bad_amount_def)

lemma bad_lunch_refused: "refused_candidate clk0 bad_lunch"
  by (simp add: refused_candidate_def bad_lunch_def lunch_def)

lemma one_lunch_expenses: "expenses one_lunch = [lunch_record]"
  by (simp add: one_lunch_def addExpense_v2_def init_app_def lunch_def missing_field_def
      finalCategory_def Number_lunch bad_amount_def today_clk0 lunch_record_def now_clk0 Let_def)

lemma good_amount: "\<not> bad_amount n \<Longrightarrow> \<exists>r. n = Num r \<and> 0 < r"
  by (cases n) (auto simp: bad_amount_def)

subsection \<open>Adding\<close>

text \<open>
  C1 (amended). In the validating iterations, \<open>add\<close> with an amount that is not a positive
  number, a date after the current date, an empty title, or an empty or unresolved
  category leaves the collection exactly unchanged. v3 shows a message in every such case.
  v2 shows a message exactly when all four fields are filled and the amount or the date
  is refused; for an empty field or an unresolved category it returns silently with the
  whole state unchanged. v1 only checks that the fields are filled and the category is
  resolved, and returns silently with the state unchanged when they are not.
\<close>

theorem addExpense_refuses:
  "(refused_candidate clk (draft st) \<longrightarrow>
      expenses (addExpense_v3 clk st) = expenses st \<and>
      (\<exists>m. alerts (addExpense_v3 clk st) = alerts st @ [m]))
   \<and> (refused_candidate clk (draft st) \<longrightarrow>
      expenses (addExpense_v2 clk st) = expenses st \<and>
      (if \<not> missing_field (draft st) \<and>
          (bad_amount (Number_str (amount_in (draft st))) \<or> today clk < date_in (draft st))
       then \<exists>m. alerts (addExpense_v2 clk st) = alerts st @ [m]
       else addExpense_v2 clk st = st))
   \<and> (missing_field (draft st) \<or> finalCategory (draft st) = [] \<longrightarrow>
      addExpense_v1 clk st = st)"
  by (auto simp: refused_candidate_def addExpense_v3_def addExpense_v2_def addExpense_v1_def
      missing_field_def Let_def)

theorem addExpense_refuses_witness:
  "refused_candidate clk0 (draft ((init_app clk0)\<lparr>draft := bad_lunch\<rparr>)) \<and>
   missing_field (draft ((init_app clk0)\<lparr>draft := bad_lunch\<rparr>)) \<and>
   expenses (addExpense_v3 clk0 ((init_app clk0)\<lparr>draft := bad_lunch\<rparr>)) = [] \<and>
   alerts (addExpense_v3 clk0 ((init_app clk0)\<lparr>draft := bad_lunch\<rparr>)) =
     [''Please fill all fields''] \<and>
   addExpense_v2 clk0 ((init_app clk0)\<lparr>draft := bad_lunch\<rparr>) =
     (init_app clk0)\<lparr>draft := bad_lunch\<rparr> \<and>
   addExpense_v1 clk0 ((init_app clk0)\<lparr>draft := bad_lunch\<rparr>) =
     (init_app clk0)\<lparr>draft := bad_lunch\<rparr>"
  using addExpense_refuses [of clk0 "(init_app clk0)\<lparr>draft := bad_lunch\<rparr>"] bad_lunch_refused
  by (simp add: missing_field_def bad_lunch_def lunch_def init_app_def addExpense_v3_def)

text \<open>
  C1 as stated fails: v1 stores a record whose amount is \<open>-5\<close>, and v2 shows nothing when
  the title is empty.
\<close>

theorem addExpense_refuses_counterexample:
  "map amount (expenses (addExpense_v1 clk0
       ((init_app clk0)\<lparr>draft := lunch\<lparr>amount_in := ''-5''\<rparr>\<rparr>))) = [AStr ''-5''] \<and>
   Number_amt (AStr ''-5'') = Num (- 5) \<and>
   alerts (addExpense_v2 clk0 ((init_app clk0)\<lparr>draft := lunch\<lparr>title_in := []\<rparr>\<rparr>)) = []"
  by (simp add: addExpense_v1_def addExpense_v2_def init_app_def lunch_def missing_field_def
      finalCategory_def Number_minus5 Let_def)

text \<open>
  C4 (amended). For every candidate that passes the checks, \<open>add\<close> increases the size of
  the collection by exactly one, and the new record has a positive numeric amount, a
  date not after the current date, a non-empty title and a non-empty category. v2 puts
  the new record at the end, v4 at the front. Its id is the current timestamp: the ids
  stay pairwise distinct exactly when they were distinct before and no stored record
  already carries that timestamp.
\<close>

theorem addExpense_valid:
  "(valid_candidate clk (draft st) \<longrightarrow>
      (\<exists>r. expenses (addExpense_v2 clk st) = expenses st @ [r] \<and> record_ok clk r \<and>
           eid r = now clk) \<and>
      length (expenses (addExpense_v2 clk st)) = Suc (length (expenses st)) \<and>
      (distinct (map eid (expenses (addExpense_v2 clk st))) \<longleftrightarrow>
         distinct (map eid (expenses st)) \<and> now clk \<notin> eid ` set (expenses st)))
   \<and> (valid_candidate_v4 clk (draft st) \<longrightarrow>
      (\<exists>r. expenses (addExpense_v4 clk st) = r # expenses st \<and> record_ok clk r \<and>
           eid r = now clk) \<and>
      length (expenses (addExpense_v4 clk st)) = Suc (length (expenses st)) \<and>
      (distinct (map eid (expenses (addExpense_v4 clk st))) \<longleftrightarrow>
         distinct (map eid (expenses st)) \<and> now clk \<notin> eid ` set (expenses st)))"
proof (intro conjI impI)
  assume v: "valid_candidate clk (draft st)"
  then obtain r where r: "Number_str (amount_in (draft st)) = Num r" "0 < r"
    using good_amount by (auto simp: valid_candidate_def)
  from v r show "\<exists>r. expenses (addExpense_v2 clk st) = expenses st @ [r] \<and> record_ok clk r \<and>
           eid r = now clk"
    by (simp add: valid_candidate_def addExpense_v2_def Let_def record_ok_def
        positive_amount_def not_future_def missing_field_def)
  from v show "length (expenses (addExpense_v2 clk st)) = Suc (length (expenses st))"
    by (simp add: valid_candidate_def addExpense_v2_def Let_def)
  from v show "distinct (map eid (expenses (addExpense_v2 clk st))) \<longleftrightarrow>
         distinct (map eid (expenses st)) \<and> now clk \<notin> eid ` set (expenses st)"
    by (auto simp: valid_candidate_def addExpense_v2_def Let_def)
next
  assume v: "valid_candidate_v4 clk (draft st)"
  then obtain r where r: "Number_str (amount_in (draft st)) = Num r" "0 < r"
    using good_amount by (auto simp: valid_candidate_v4_def)
  from v r show "\<exists>r. expenses (addExpense_v4 clk st) = r # expenses st \<and> record_ok clk r \<and>
           eid r = now clk"
    by (simp add: valid_candidate_v4_def addExpense_v4_def Let_def record_ok_def
        positive_amount_def not_future_def missing_field_def)
  from v show "length (expenses (addExpense_v4 clk st)) = Suc (length (expenses st))"
    by (simp add: valid_candidate_v4_def addExpense_v4_def Let_def)
  from v show "distinct (map eid (expenses (addExpense_v4 clk st))) \<longleftrightarrow>
         distinct (map eid (expenses st)) \<and> now clk \<notin> eid ` set (expenses st)"
    by (auto simp: valid_candidate_v4_def addExpense_v4_def Let_def)
qed

theorem addExpense_valid_witness:
  "valid_candidate clk0 (draft ((init_app clk0)\<lparr>draft := lunch\<rparr>)) \<and>
   valid_candidate_v4 clk0 (draft (one_lunch\<lparr>draft := lunch\<rparr>)) \<and>
   length (expenses (addExpense_v2 clk0 ((init_app clk0)\<lparr>draft := lunch\<rparr>))) = 1 \<and>
   length (expenses (addExpense_v4 clk0 (one_lunch\<lparr>draft := lunch\<rparr>))) = 2"
  using addExpense_valid [of clk0 "(init_app clk0)\<lparr>draft := lunch\<rparr>"]
    addExpense_valid [of clk0 "one_lunch\<lparr>draft := lunch\<rparr>"] lunch_valid lunch_valid_v4
  by (simp add: init_app_def one_lunch_expenses)

text \<open>
  C4 as stated fails: a second add under the same clock reading repeats the id, and v4
  puts the new record first.
\<close>

theorem addExpense_valid_counterexample:
  "map eid (expenses (addExpense_v2 clk0 (one_lunch\<lparr>draft := lunch\<rparr>))) = [1000, 1000] \<and>
   map eid (expenses (addExpense_v4 clk1 (one_lunch\<lparr>draft := lunch\<rparr>))) = [2000, 1000]"
  by (simp add: addExpense_v2_def addExpense_v4_def one_lunch_expenses lunch_def missing_field_def
      finalCategory_def Number_lunch bad_amount_def today_clk0 today_clk1 lunch_record_def
      now_clk0 now_clk1 Let_def)

subsection \<open>Editing, deleting, reachable states\<close>

lemma one_lunch_alerts: "alerts one_lunch = []"
  by (simp add: one_lunch_def addExpense_v2_def init_app_def lunch_def missing_field_def
      finalCategory_def Number_lunch bad_amount_def today_clk0 Let_def)

lemma one_lunch_v1_expenses: "expenses one_lunch_v1 = [lunch_record\<lparr>amount := AStr ''250''\<rparr>]"
  by (simp add: one_lunch_v1_def addExpense_v1_def init_app_def lunch_def missing_field_def
      finalCategory_def lunch_record_def now_clk0 Let_def)

lemma one_lunch_v1_alerts: "alerts one_lunch_v1 = []"
  by (simp add: one_lunch_v1_def addExpense_v1_def init_app_def lunch_def missing_field_def
      finalCategory_def Let_def)

text \<open>
  C5 (amended). In the validating iterations (shown for v2), \<open>update(id, patch)\<close>
  re-validates the patch's amount and date: when the amount is not a positive number or
  the date is after the current date, the collection is unchanged and one message is
  shown. Otherwise every record with that id is replaced in place by the record with the
  patch's title, amount, date and category (ids and positions are kept) and nothing is
  shown; when no record has the id, the collection is unchanged. v1 applies the patch
  without any validation and never shows a message.
\<close>

theorem saveEdit_revalidates:
  "(bad_amount (Number_amt (ef_amount (editForm st))) \<or> today clk < ef_date (editForm st) \<longrightarrow>
      expenses (saveEdit_v2 clk i st) = expenses st \<and>
      (\<exists>m. alerts (saveEdit_v2 clk i st) = alerts st @ [m]))
   \<and> (\<not> bad_amount (Number_amt (ef_amount (editForm st))) \<and>
       \<not> today clk < ef_date (editForm st) \<longrightarrow>
      expenses (saveEdit_v2 clk i st) =
        map (\<lambda>e. if eid e = i
                   then e\<lparr>title := ef_title (editForm st),
                          amount := ANum (Number_amt (ef_amount (editForm st))),
                          date := ef_date (editForm st),
                          category := ef_category (editForm st)\<rparr>
                   else e) (expenses st) \<and>
      map eid (expenses (saveEdit_v2 clk i st)) = map eid (expenses st) \<and>
      alerts (saveEdit_v2 clk i st) = alerts st \<and>
      (i \<notin> eid ` set (expenses st) \<longrightarrow> expenses (saveEdit_v2 clk i st) = expenses st))
   \<and> expenses (saveEdit_v1 i st) =
        map (\<lambda>e. if eid e = i
                   then e\<lparr>title := ef_title (editForm st), amount := ef_amount (editForm st),
                          date := ef_date (editForm st), category := ef_category (editForm st)\<rparr>
                   else e) (expenses st)
   \<and> alerts (saveEdit_v1 i st) = alerts st"
proof -
  have same: "map (\<lambda>e. if eid e = i then f e else e) xs = xs" if "i \<notin> eid ` set xs"
    for f :: "expense \<Rightarrow> expense" and xs
    using that by (induction xs) auto
  have ids: "map eid (map (\<lambda>e. if eid e = i then merge_edit ef a e else e) xs) = map eid xs"
    for ef a xs
    by (induction xs) (auto simp: merge_edit_def)
  show ?thesis
    by (auto simp: saveEdit_v2_def saveEdit_v1_def cancelEdit_def Let_def ids same)
      (simp_all add: merge_edit_def)
qed

theorem saveEdit_revalidates_witness:
  "bad_amount (Number_amt (ef_amount (editForm (one_lunch\<lparr>editForm := negative_edit\<rparr>)))) \<and>
   expenses (saveEdit_v2 clk0 1000 (one_lunch\<lparr>editForm := negative_edit\<rparr>)) = [lunch_record] \<and>
   alerts (saveEdit_v2 clk0 1000 (one_lunch\<lparr>editForm := negative_edit\<rparr>)) =
     [''Please enter a valid positive amount''] \<and>
   \<not> bad_amount (Number_amt (ef_amount (editForm (one_lunch\<lparr>editForm := dinner_edit\<rparr>)))) \<and>
   \<not> today clk0 < ef_date (editForm (one_lunch\<lparr>editForm := dinner_edit\<rparr>)) \<and>
   map title (expenses (saveEdit_v2 clk0 1000 (one_lunch\<lparr>editForm := dinner_edit\<rparr>))) =
     [''Dinner''] \<and>
   7 \<notin> eid ` set (expenses (one_lunch\<lparr>editForm := dinner_edit\<rparr>)) \<and>
   expenses (saveEdit_v2 clk0 7 (one_lunch\<lparr>editForm := dinner_edit\<rparr>)) = [lunch_record]"
  using saveEdit_revalidates [of "one_lunch\<lparr>editForm := negative_edit\<rparr>" clk0 1000]
    saveEdit_revalidates [of "one_lunch\<lparr>editForm := dinner_edit\<rparr>" clk0 1000]
    saveEdit_revalidates [of "one_lunch\<lparr>editForm := dinner_edit\<rparr>" clk0 7]
  by (simp add: negative_edit_def dinner_edit_def Number_minus5 Number_lunch bad_amount_def
      today_clk0 one_lunch_expenses one_lunch_alerts lunch_record_def saveEdit_v2_def Let_def)

text \<open>C5 as stated fails: v1 stores the patch's amount \<open>-5\<close> and shows nothing.\<close>

theorem saveEdit_revalidates_counterexample:
  "map amount (expenses (saveEdit_v1 1000 (one_lunch_v1\<lparr>editForm := negative_edit\<rparr>))) =
     [AStr ''-5''] \<and>
   Number_amt (AStr ''-5'') = Num (- 5) \<and>
   alerts (saveEdit_v1 1000 (one_lunch_v1\<lparr>editForm := negative_edit\<rparr>)) = []"
  by (simp add: saveEdit_v1_def cancelEdit_def one_lunch_v1_expenses one_lunch_v1_alerts
      negative_edit_def lunch_record_def merge_edit_def Number_minus5)

text \<open>
  C10. \<open>remove(id)\<close> keeps exactly the records whose id differs from the given one, in
  their original order, so no record with that id remains. Ids can repeat: two valid adds
  under one clock reading give two records with the same id, and one \<open>remove\<close> of that id
  deletes both.
\<close>

theorem deleteExpense_removes_every_match:
  "expenses (deleteExpense i st) = filter (\<lambda>e. eid e \<noteq> i) (expenses st) \<and>
   i \<notin> eid ` set (expenses (deleteExpense i st)) \<and>
   set (expenses (deleteExpense i st)) = {e \<in> set (expenses st). eid e \<noteq> i} \<and>
   filter (\<lambda>e. eid e \<noteq> i) (expenses (deleteExpense i st)) =
     filter (\<lambda>e. eid e \<noteq> i) (expenses st) \<and>
   (valid_candidate clk d \<and> valid_candidate clk d' \<longrightarrow>
      length (filter (\<lambda>e. eid e = now clk)
        (expenses (addExpense_v2 clk ((addExpense_v2 clk (st\<lparr>draft := d\<rparr>))\<lparr>draft := d'\<rparr>))))
        \<ge> 2 \<and>
      expenses (deleteExpense (now clk)
        (addExpense_v2 clk ((addExpense_v2 clk (st\<lparr>draft := d\<rparr>))\<lparr>draft := d'\<rparr>))) =
        filter (\<lambda>e. eid e \<noteq> now clk) (expenses st))"
  by (auto simp: deleteExpense_def addExpense_v2_def valid_candidate_def Let_def)

theorem deleteExpense_removes_every_match_witness:
  "valid_candidate clk0 lunch \<and>
   map eid (expenses two_lunches) = [1000, 1000] \<and>
   expenses (deleteExpense (now clk0) two_lunches) = []"
  using deleteExpense_removes_every_match [of "now clk0" two_lunches clk0 lunch lunch]
    deleteExpense_removes_every_match [of 1000 "init_app clk0" clk0 lunch lunch] lunch_valid
  by (simp add: two_lunches_def one_lunch_def init_app_def now_clk0
      addExpense_v2_def lunch_def missing_field_def
      finalCategory_def Number_lunch bad_amount_def today_clk0 Let_def)

lemma not_future_mono:
  "not_future clk e \<Longrightarrow> today clk \<le> today clk' \<Longrightarrow> not_future clk' e"
  by (auto simp: not_future_def)

text \<open>
  C2 (amended). In the validating iteration v2 (which has no import), every state reached
  from the empty collection by any sequence of add, update, remove and clear, with a
  clock whose date never decreases, holds only records with a numeric amount greater
  than 0 and a date not after the current date.
\<close>

theorem reachable_v2_invariant:
  "reachable_v2 clk st \<Longrightarrow> \<forall>e \<in> set (expenses st). positive_amount e \<and> not_future clk e"
proof (induction rule: reachable_v2.induct)
  case (start clk)
  then show ?case by (simp add: init_app_def)
next
  case (tick clk st clk')
  then show ?case using not_future_mono by blast
next
  case (add clk st)
  then show ?case
    by (auto simp: addExpense_v2_def Let_def positive_amount_def not_future_def
        dest!: good_amount)
next
  case (update clk st i)
  then show ?case
    by (auto simp: saveEdit_v2_def cancelEdit_def merge_edit_def Let_def positive_amount_def
        not_future_def dest!: good_amount)
next
  case (remove clk st i)
  then show ?case by (simp add: deleteExpense_def)
next
  case (clear clk st b)
  then show ?case by (simp add: clearAll_def)
qed simp_all

lemma one_lunch_reachable: "reachable_v2 clk0 one_lunch"
  unfolding one_lunch_def by (intro reachable_v2.add reachable_v2.typing reachable_v2.start)

lemma two_lunches_reachable: "reachable_v2 clk0 two_lunches"
  unfolding two_lunches_def
  by (intro reachable_v2.add reachable_v2.typing one_lunch_reachable)

lemma blanked_lunch_reachable: "reachable_v2 clk0 blanked_lunch"
  unfolding blanked_lunch_def
  by (intro reachable_v2.update reachable_v2.editing one_lunch_reachable)

theorem reachable_v2_invariant_witness:
  "reachable_v2 clk0 one_lunch \<and> expenses one_lunch = [lunch_record] \<and>
   positive_amount lunch_record \<and> not_future clk0 lunch_record"
  using reachable_v2_invariant [OF one_lunch_reachable] one_lunch_reachable
  by (simp add: one_lunch_expenses)

text \<open>
  C2 as stated fails in v2: two adds under one clock reading repeat an id, and an update
  blanks the title and the category of a stored record.
\<close>

theorem reachable_v2_invariant_counterexample:
  "reachable_v2 clk0 two_lunches \<and> map eid (expenses two_lunches) = [1000, 1000] \<and>
   reachable_v2 clk0 blanked_lunch \<and> map title (expenses blanked_lunch) = [[]] \<and>
   map category (expenses blanked_lunch) = [[]]"
  using two_lunches_reachable blanked_lunch_reachable
  by (simp add: two_lunches_def blanked_lunch_def one_lunch_expenses lunch_record_def
      addExpense_v2_def saveEdit_v2_def cancelEdit_def merge_edit_def blank_edit_def
      lunch_def missing_field_def finalCategory_def Number_lunch bad_amount_def today_clk0
      now_clk0 Let_def)

subsection \<open>The sort\<close>

lemma set_insert_js: "set (insert_js cmp x ys) = insert x (set ys)"
  by (induction ys) auto

lemma set_foldl_insert_js:
  "set (foldl (\<lambda>placed x. insert_js cmp x placed) acc xs) = set acc \<union> set xs"
  by (induction xs arbitrary: acc) (auto simp: set_insert_js)

lemma set_sort_js: "set (sort_js cmp xs) = set xs"
  by (simp add: sort_js_def set_foldl_insert_js)

lemma length_insert_js: "length (insert_js cmp x ys) = Suc (length ys)"
  by (induction ys) auto

lemma distinct_map_insert_js:
  "distinct (map f (insert_js cmp x ys)) \<longleftrightarrow> f x \<notin> f ` set ys \<and> distinct (map f ys)"
  by (induction ys) (auto simp: set_insert_js)

lemma distinct_map_foldl_insert_js:
  "distinct (map f (foldl (\<lambda>placed x. insert_js cmp x placed) acc xs)) \<longleftrightarrow>
   distinct (map f (acc @ xs))"
proof (induction xs arbitrary: acc)
  case Nil
  then show ?case by simp
next
  case (Cons x xs)
  show ?case
    by (simp add: Cons.IH distinct_map_insert_js set_insert_js) blast
qed

lemma distinct_map_sort_js: "distinct (map f (sort_js cmp xs)) \<longleftrightarrow> distinct (map f xs)"
  by (simp add: sort_js_def distinct_map_foldl_insert_js)

lemma sorted_insert_js:
  fixes f :: "'a \<Rightarrow> 'k::linorder"
  assumes key: "\<And>a b. negative (cmp a b) \<longleftrightarrow> f a < f b"
  shows "sorted (map f ys) \<Longrightarrow> sorted (map f (insert_js cmp x ys))"
  by (induction ys) (auto simp: key set_insert_js)

lemma sorted_foldl_insert_js:
  fixes f :: "'a \<Rightarrow> 'k::linorder"
  assumes key: "\<And>a b. negative (cmp a b) \<longleftrightarrow> f a < f b"
  shows "sorted (map f acc) \<Longrightarrow>
         sorted (map f (foldl (\<lambda>placed x. insert_js cmp x placed) acc xs))"
  by (induction xs arbitrary: acc) (simp_all add: sorted_insert_js [OF key])

lemma sorted_sort_js:
  fixes f :: "'a \<Rightarrow> 'k::linorder"
  assumes key: "\<And>a b. negative (cmp a b) \<longleftrightarrow> f a < f b"
  shows "sorted (map f (sort_js cmp xs))"
  by (simp add: sort_js_def sorted_foldl_insert_js [OF key])

lemma negative_localeCompare: "negative (localeCompare a b) \<longleftrightarrow> a < b"
  by (auto simp: negative_def localeCompare_def)

subsection \<open>The month buckets of v3\<close>

lemma month_add_to_row: "month (add_to_row e r) = month r"
  by (simp add: add_to_row_def)

lemma take7_empty: "take 7 d = [] \<longleftrightarrow> d = []"
  by (cases d) simp_all

lemma months_step:
  "map month (monthMap_step rows e) =
     (if date e = [] \<or> take 7 (date e) \<in> month ` set rows then map month rows
      else map month rows @ [take 7 (date e)])"
proof -
  have keep: "month \<circ> (\<lambda>r. if month r = m then add_to_row e r else r) = month" for m
    by (auto simp: fun_eq_iff month_add_to_row)
  have ex: "list_ex (\<lambda>r. month r = m) rows \<longleftrightarrow> m \<in> month ` set rows" for m
    by (auto simp: list_ex_iff image_iff)
  show ?thesis
    by (simp add: monthMap_step_def Let_def keep ex take7_empty month_add_to_row)
qed

lemma months_fold:
  "set (map month (foldl monthMap_step rows v)) =
     month ` set rows \<union> (\<lambda>e. take 7 (date e)) ` {e \<in> set v. date e \<noteq> []}"
proof (induction v arbitrary: rows)
  case Nil
  then show ?case by simp
next
  case (Cons e v)
  have "set (map month (monthMap_step rows e)) =
          month ` set rows \<union> (if date e = [] then {} else {take 7 (date e)})"
    by (auto simp: months_step)
  then show ?case
    using Cons.IH [of "monthMap_step rows e"] by auto
qed

lemma distinct_months_fold:
  "distinct (map month rows) \<Longrightarrow> distinct (map month (foldl monthMap_step rows v))"
proof (induction v arbitrary: rows)
  case Nil
  then show ?case by simp
next
  case (Cons e v)
  from Cons.prems have "distinct (map month (monthMap_step rows e))"
    by (auto simp: months_step)
  then show ?case using Cons.IH by simp
qed

lemma find_map_same_key:
  assumes "\<And>r. month (g r) = month r"
  shows "find (\<lambda>r. month r = m) (map (\<lambda>r. if month r = k then g r else r) rows) =
         map_option (\<lambda>r. if month r = k then g r else r) (find (\<lambda>r. month r = m) rows)"
  by (induction rows) (auto simp: assms)

lemma find_snoc:
  "find P (rows @ [z]) =
     (case find P rows of None \<Rightarrow> (if P z then Some z else None) | Some r \<Rightarrow> Some r)"
  by (induction rows) auto

lemma find_None_key: "find (\<lambda>r. month r = m) rows = None \<longleftrightarrow> m \<notin> month ` set rows"
  by (induction rows) auto

lemma find_Some_key: "find (\<lambda>r. month r = m) rows = Some r \<Longrightarrow> month r = m"
  by (induction rows) (auto split: if_splits)

lemma row_value_step:
  assumes sel_add: "\<And>e r. sel (add_to_row e r) =
                      (if P e then js_add (sel r) (Number_amt (amount e)) else sel r)"
    and sel_zero: "\<And>m. sel \<lparr>month = m, expense = Num 0, income = Num 0, investment = Num 0\<rparr> = Num 0"
  shows "row_value sel m (monthMap_step rows e) =
           (if take 7 (date e) = m \<and> m \<noteq> [] \<and> P e
            then js_add (row_value sel m rows) (Number_amt (amount e))
            else row_value sel m rows)"
proof (cases "take 7 (date e) = []")
  case True
  then show ?thesis by (auto simp: monthMap_step_def Let_def)
next
  case False
  let ?k = "take 7 (date e)"
  let ?zero = "\<lparr>month = ?k, expense = Num 0, income = Num 0, investment = Num 0\<rparr>"
  let ?rows' = "if list_ex (\<lambda>r. month r = ?k) rows then rows else rows @ [?zero]"
  have step: "monthMap_step rows e = map (\<lambda>r. if month r = ?k then add_to_row e r else r) ?rows'"
    using False by (simp add: monthMap_step_def Let_def)
  have found: "find (\<lambda>r. month r = m) (monthMap_step rows e) =
      map_option (\<lambda>r. if month r = ?k then add_to_row e r else r) (find (\<lambda>r. month r = m) ?rows')"
    unfolding step by (rule find_map_same_key) (rule month_add_to_row)
  show ?thesis
  proof (cases "find (\<lambda>r. month r = m) rows")
    case None
    then have absent: "m \<notin> month ` set rows" by (simp add: find_None_key)
    show ?thesis
    proof (cases "?k = m")
      case True
      with absent have "\<not> list_ex (\<lambda>r. month r = ?k) rows"
        by (auto simp: list_ex_iff image_iff)
      with True None False show ?thesis
        by (simp add: row_value_def found find_snoc sel_add sel_zero)
    next
      case neq: False
      with None show ?thesis
        by (auto simp: row_value_def found find_snoc)
    qed
  next
    case (Some r)
    then have key: "month r = m" by (rule find_Some_key)
    from Some have "find (\<lambda>r. month r = m) ?rows' = Some r"
      by (simp add: find_snoc)
    with key False show ?thesis
      by (auto simp: row_value_def found Some sel_add)
  qed
qed

lemma row_value_fold:
  assumes sel_add: "\<And>e r. sel (add_to_row e r) =
                      (if P e then js_add (sel r) (Number_amt (amount e)) else sel r)"
    and sel_zero: "\<And>m. sel \<lparr>month = m, expense = Num 0, income = Num 0, investment = Num 0\<rparr> = Num 0"
    and key: "m \<noteq> []"
  shows "row_value sel m (foldl monthMap_step rows v) =
           foldl js_add (row_value sel m rows) (bucket_amounts P m v)"
proof (induction v arbitrary: rows)
  case Nil
  then show ?case by (simp add: bucket_amounts_def)
next
  case (Cons e v)
  show ?case
    using key
    by (simp add: Cons.IH row_value_step [of sel P, OF sel_add sel_zero] bucket_amounts_def)
qed

lemma row_value_Nil: "row_value sel m [] = Num 0"
  by (simp add: row_value_def)

lemma row_value_member:
  assumes "distinct (map month rows)" and "r \<in> set rows"
  shows "row_value sel (month r) rows = sel r"
  using assms by (induction rows) (auto simp: row_value_def)

lemma monthMap_v3_sums:
  assumes sel_add: "\<And>e r. sel (add_to_row e r) =
                      (if P e then js_add (sel r) (Number_amt (amount e)) else sel r)"
    and sel_zero: "\<And>m. sel \<lparr>month = m, expense = Num 0, income = Num 0, investment = Num 0\<rparr> = Num 0"
    and mem: "r \<in> set (monthMap_v3 v)"
  shows "sel r = js_sum (bucket_amounts P (month r) v)"
proof -
  have d: "distinct (map month (monthMap_v3 v))"
    unfolding monthMap_v3_def by (rule distinct_months_fold) simp
  from mem have "month r \<in> set (map month (monthMap_v3 v))" by simp
  then have ne: "month r \<noteq> []"
    unfolding monthMap_v3_def months_fold by (auto simp: take7_empty)
  have "sel r = row_value sel (month r) (monthMap_v3 v)"
    using row_value_member [OF d mem] by simp
  also have "\<dots> = js_sum (bucket_amounts P (month r) v)"
    unfolding monthMap_v3_def js_sum_def
    by (simp add: row_value_fold [of sel P, OF sel_add sel_zero ne] row_value_Nil)
  finally show ?thesis .
qed

lemma expense_add: "expense (add_to_row e r) =
    (if is_other e then js_add (expense r) (Number_amt (amount e)) else expense r)"
  by (simp add: add_to_row_def is_other_def)

lemma income_add: "income (add_to_row e r) =
    (if is_income e then js_add (income r) (Number_amt (amount e)) else income r)"
  by (simp add: add_to_row_def is_income_def)

lemma investment_add: "investment (add_to_row e r) =
    (if is_investment e then js_add (investment r) (Number_amt (amount e)) else investment r)"
  by (simp add: add_to_row_def is_investment_def)

lemma monthMap_skips_empty:
  "foldl monthMap_step rows (filter (\<lambda>e. date e \<noteq> []) v) = foldl monthMap_step rows v"
  by (induction v arbitrary: rows) (simp_all add: monthMap_step_def)

subsection \<open>The month buckets of v4\<close>

lemma keys_assign:
  "map fst (assign k v es) = (if k \<in> fst ` set es then map fst es else map fst es @ [k])"
  by (induction es) auto

lemma map_of_assign: "map_of (assign k v es) = (map_of es)(k \<mapsto> v)"
  by (induction es) (auto simp: fun_eq_iff)

lemma keys_monthlyData_fold:
  "set (map fst (foldl monthlyData_step es v)) = fst ` set es \<union> (\<lambda>e. take 7 (date e)) ` set v"
proof (induction v arbitrary: es)
  case Nil
  then show ?case by simp
next
  case (Cons e v)
  have "set (map fst (monthlyData_step es e)) = insert (take 7 (date e)) (fst ` set es)"
    by (auto simp: monthlyData_step_def Let_def keys_assign)
  then show ?case
    using Cons.IH [of "monthlyData_step es e"] by auto
qed

lemma distinct_monthlyData_fold:
  "distinct (map fst es) \<Longrightarrow> distinct (map fst (foldl monthlyData_step es v))"
proof (induction v arbitrary: es)
  case Nil
  then show ?case by simp
next
  case (Cons e v)
  from Cons.prems have "distinct (map fst (monthlyData_step es e))"
    by (auto simp: monthlyData_step_def Let_def keys_assign)
  then show ?case using Cons.IH by simp
qed

lemma or_zero: "\<not> isNaN n \<Longrightarrow> (if truthy_num n then n else Num 0) = n"
  by (cases n) auto

lemma entry_value_step:
  assumes "\<not> isNaN (entry_value (take 7 (date e)) es)"
  shows "entry_value k (monthlyData_step es e) =
           (if take 7 (date e) = k then js_add (entry_value k es) (Number_amt (amount e))
            else entry_value k es)"
proof -
  have "(case map_of es (take 7 (date e)) of None \<Rightarrow> Num 0
         | Some v \<Rightarrow> if truthy_num v then v else Num 0) = entry_value (take 7 (date e)) es"
    using assms or_zero [of "the (map_of es (take 7 (date e)))"]
    by (auto simp: entry_value_def split: option.splits)
  then show ?thesis
    by (simp add: monthlyData_step_def Let_def entry_value_def map_of_assign)
qed

lemma js_add_not_NaN: "\<not> isNaN a \<Longrightarrow> \<not> isNaN b \<Longrightarrow> \<not> isNaN (js_add a b)"
  by (cases a; cases b) simp_all

lemma entry_value_fold:
  assumes "\<forall>e \<in> set v. \<not> isNaN (Number_amt (amount e))"
    and "\<forall>k. \<not> isNaN (entry_value k es)"
  shows "entry_value k (foldl monthlyData_step es v) =
           foldl js_add (entry_value k es) (bucket_amounts (\<lambda>e. True) k v)"
  using assms
proof (induction v arbitrary: es)
  case Nil
  then show ?case by (simp add: bucket_amounts_def)
next
  case (Cons e v)
  have step: "entry_value k' (monthlyData_step es e) =
           (if take 7 (date e) = k' then js_add (entry_value k' es) (Number_amt (amount e))
            else entry_value k' es)" for k'
    using Cons.prems(2) by (simp add: entry_value_step)
  have inv: "\<forall>k. \<not> isNaN (entry_value k (monthlyData_step es e))"
    using Cons.prems by (simp add: step js_add_not_NaN)
  have "entry_value k (foldl monthlyData_step (monthlyData_step es e) v) =
          foldl js_add (entry_value k (monthlyData_step es e)) (bucket_amounts (\<lambda>e. True) k v)"
    using Cons.prems(1) inv by (intro Cons.IH) simp_all
  then show ?case
    by (simp add: step bucket_amounts_def)
qed

lemma entry_value_member:
  assumes "distinct (map fst es)" and "(k, t) \<in> set es"
  shows "entry_value k es = t"
  using assms by (simp add: entry_value_def)

lemma monthlyData_sums:
  assumes "\<forall>e \<in> set v. \<not> isNaN (Number_amt (amount e))" and "(k, t) \<in> set (monthlyData v)"
  shows "t = js_sum (bucket_amounts (\<lambda>e. True) k v)"
proof -
  have d: "distinct (map fst (monthlyData v))"
    unfolding monthlyData_def by (rule distinct_monthlyData_fold) simp
  have "t = entry_value k (monthlyData v)"
    using entry_value_member [OF d assms(2)] by simp
  also have "\<dots> = js_sum (bucket_amounts (\<lambda>e. True) k v)"
    unfolding monthlyData_def js_sum_def
    using entry_value_fold [OF assms(1), of "[]" k] by (simp add: entry_value_def)
  finally show ?thesis .
qed

subsection \<open>The monthly aggregate\<close>

lemma month_bar: "map month (barData_v3 v) =
    map month (sort_js (\<lambda>a b. localeCompare (month a) (month b)) (monthMap_v3 v))"
  by (simp add: barData_v3_def month_row.defs o_def)

lemma bar_row_origin:
  assumes "row \<in> set (barData_v3 v)"
  shows "\<exists>item \<in> set (monthMap_v3 v). month row = month item \<and> expense row = expense item \<and>
           income row = income item \<and> investment row = investment item \<and>
           spending row = js_add (expense item) (investment item) \<and>
           total row = js_add (js_add (income item) (expense item)) (investment item)"
  using assms by (auto simp: barData_v3_def set_sort_js month_row.defs bar_row.defs)

lemma set_view_v3_unfiltered:
  "selectedMonth p = [] \<Longrightarrow> filterType p = ''all'' \<Longrightarrow> trim (search p) = [] \<Longrightarrow>
   set (view_v3 p xs) = set xs"
  by (simp add: view_v3_def Let_def set_sort_js)

text \<open>
  C7 (amended). For every view, the monthly aggregate of v3 has one entry per key, the
  entries are sorted ascending by key, and each entry holds, split by type, the sums of
  the amounts of the view's records in that bucket. A record with an empty date is left
  out of the buckets; every other record, well-formed date or not, is counted under the
  first seven characters of its date. The aggregation does not touch the view: without
  filters the view holds every record of the collection. For the monthly aggregate of v4
  the entries are likewise distinct and sorted ascending, every record with a non-empty
  date is counted under the first seven characters of its date, and, when no amount is
  \<open>NaN\<close>, each total is the sum of the amounts of the view's records in that bucket.
\<close>

theorem byMonth_aggregates:
  "sorted (map month (barData_v3 v)) \<and> distinct (map month (barData_v3 v)) \<and>
   set (map month (barData_v3 v)) = (\<lambda>e. take 7 (date e)) ` {e \<in> set v. date e \<noteq> []} \<and>
   (\<forall>row \<in> set (barData_v3 v).
      expense row = js_sum (bucket_amounts is_other (month row) v) \<and>
      income row = js_sum (bucket_amounts is_income (month row) v) \<and>
      investment row = js_sum (bucket_amounts is_investment (month row) v)) \<and>
   barData_v3 (filter (\<lambda>e. date e \<noteq> []) v) = barData_v3 v \<and>
   (selectedMonth p = [] \<and> filterType p = ''all'' \<and> trim (search p) = [] \<longrightarrow>
      set (view_v3 p xs) = set xs) \<and>
   sorted (map fst (barData_v4 v)) \<and> distinct (map fst (barData_v4 v)) \<and>
   (\<lambda>e. take 7 (date e)) ` {e \<in> set v. date e \<noteq> []} \<subseteq> set (map fst (barData_v4 v)) \<and>
   set (map fst (barData_v4 v)) \<subseteq> (\<lambda>e. take 7 (date e)) ` set v \<and>
   ((\<forall>e \<in> set v. \<not> isNaN (Number_amt (amount e))) \<longrightarrow>
      (\<forall>(k, t) \<in> set (barData_v4 v). t = js_sum (bucket_amounts (\<lambda>e. True) k v)))"
proof (intro conjI)
  show "sorted (map month (barData_v3 v))"
    unfolding month_bar by (rule sorted_sort_js) (rule negative_localeCompare)
  show "distinct (map month (barData_v3 v))"
    unfolding month_bar monthMap_v3_def
    by (simp add: distinct_map_sort_js distinct_months_fold)
  show "set (map month (barData_v3 v)) = (\<lambda>e. take 7 (date e)) ` {e \<in> set v. date e \<noteq> []}"
    unfolding month_bar using months_fold [of "[]" v]
    by (simp add: set_sort_js monthMap_v3_def)
  show "\<forall>row \<in> set (barData_v3 v).
      expense row = js_sum (bucket_amounts is_other (month row) v) \<and>
      income row = js_sum (bucket_amounts is_income (month row) v) \<and>
      investment row = js_sum (bucket_amounts is_investment (month row) v)"
  proof
    fix row assume "row \<in> set (barData_v3 v)"
    then obtain item where item: "item \<in> set (monthMap_v3 v)" "month row = month item"
      "expense row = expense item" "income row = income item" "investment row = investment item"
      using bar_row_origin by blast
    have "expense item = js_sum (bucket_amounts is_other (month item) v)"
      by (rule monthMap_v3_sums [OF expense_add _ item(1)]) simp
    moreover have "income item = js_sum (bucket_amounts is_income (month item) v)"
      by (rule monthMap_v3_sums [OF income_add _ item(1)]) simp
    moreover have "investment item = js_sum (bucket_amounts is_investment (month item) v)"
      by (rule monthMap_v3_sums [OF investment_add _ item(1)]) simp
    ultimately show "expense row = js_sum (bucket_amounts is_other (month row) v) \<and>
      income row = js_sum (bucket_amounts is_income (month row) v) \<and>
      investment row = js_sum (bucket_amounts is_investment (month row) v)"
      using item by simp
  qed
  show "barData_v3 (filter (\<lambda>e. date e \<noteq> []) v) = barData_v3 v"
    by (simp add: barData_v3_def monthMap_v3_def monthMap_skips_empty)
  show "selectedMonth p = [] \<and> filterType p = ''all'' \<and> trim (search p) = [] \<longrightarrow>
      set (view_v3 p xs) = set xs"
    by (simp add: set_view_v3_unfiltered)
  show "sorted (map fst (barData_v4 v))"
    unfolding barData_v4_def by (rule sorted_sort_js) (rule negative_localeCompare)
  show "distinct (map fst (barData_v4 v))"
    unfolding barData_v4_def monthlyData_def
    by (simp add: distinct_map_sort_js distinct_monthlyData_fold)
  have keys: "set (map fst (barData_v4 v)) = (\<lambda>e. take 7 (date e)) ` set v"
    unfolding barData_v4_def monthlyData_def using keys_monthlyData_fold [of "[]" v]
    by (simp add: set_sort_js)
  show "(\<lambda>e. take 7 (date e)) ` {e \<in> set v. date e \<noteq> []} \<subseteq> set (map fst (barData_v4 v))"
    unfolding keys by blast
  show "set (map fst (barData_v4 v)) \<subseteq> (\<lambda>e. take 7 (date e)) ` set v"
    unfolding keys by simp
  show "(\<forall>e \<in> set v. \<not> isNaN (Number_amt (amount e))) \<longrightarrow>
      (\<forall>(k, t) \<in> set (barData_v4 v). t = js_sum (bucket_amounts (\<lambda>e. True) k v))"
    using monthlyData_sums by (auto simp: barData_v4_def set_sort_js)
qed

lemmas aggregate_eval = barData_v3_def monthMap_v3_def monthMap_step_def add_to_row_def
  barData_v4_def monthlyData_def monthlyData_step_def sort_js_def localeCompare_def
  negative_def month_row.defs bar_row.defs Let_def

lemma sample_bar_v3:
  "barData_v3 sample_view =
     [\<lparr>month = ''2024-02'', expense = Num 0, income = Num 5000, investment = Num 0,
       spending = Num 0, total = Num 5000\<rparr>,
      \<lparr>month = ''2024-03'', expense = Num 80, income = Num 0, investment = Num 0,
       spending = Num 80, total = Num 80\<rparr>]"
  by (simp add: aggregate_eval sample_view_def salary_def coffee_def tea_def)

lemma sample_bar_v4:
  "barData_v4 sample_view = [([], Num 40), (''2024-02'', Num 5000), (''2024-03'', Num 80)]"
  by (simp add: aggregate_eval sample_view_def salary_def coffee_def tea_def)

theorem byMonth_aggregates_witness:
  "selectedMonth no_filter = [] \<and> filterType no_filter = ''all'' \<and>
   trim (search no_filter) = [] \<and>
   list_all (\<lambda>e. \<not> isNaN (Number_amt (amount e))) sample_view \<and>
   map month (barData_v3 sample_view) = [''2024-02'', ''2024-03''] \<and>
   map expense (barData_v3 sample_view) = [Num 0, Num 80] \<and>
   js_sum (bucket_amounts is_other ''2024-03'' sample_view) = Num 80 \<and>
   barData_v3 (filter (\<lambda>e. date e \<noteq> []) sample_view) = barData_v3 sample_view \<and>
   set (view_v3 no_filter sample_view) = set sample_view \<and>
   map snd (barData_v4 sample_view) = [Num 40, Num 5000, Num 80]"
  using byMonth_aggregates [of sample_view no_filter sample_view]
  by (simp add: sample_bar_v3 sample_bar_v4 no_filter_def trim_def)
    (simp add: sample_view_def salary_def coffee_def tea_def)

text \<open>C7 as stated fails: v3 counts a record with the malformed date \<open>next week\<close> in the
  bucket \<open>next we\<close>.\<close>

theorem byMonth_aggregates_counterexample:
  "map month (barData_v3 [coffee\<lparr>date := ''next week''\<rparr>]) = [''next we''] \<and>
   map expense (barData_v3 [coffee\<lparr>date := ''next week''\<rparr>]) = [Num 40]"
  by (simp add: aggregate_eval coffee_def)

subsection \<open>The view pipeline\<close>

lemmas pipeline_eval = view_v1_def view_v2_def view_v3_def view_v4_def sort_js_def
  compare_v1_def compare_v2_def compare_v4_def negative_def month_matches_def
  title_matches_def is_expense_def toLowerCase_def lower_char_def trim_def is_space_def
  Let_def

text \<open>
  C9. The view is the composition of the stages in the order month filter, type filter,
  text search, sort: in v3 with all four stages (the search reads the title), in v4,
  which has no transaction types and hence no type filter, with the month filter, the
  search (title, category and notes) and the sort.
\<close>

theorem view_composes_stages:
  "view_v3 p xs =
     sort_stage (sortBy p) (sortDir p)
       (search_filter (search p) (type_filter (filterType p) (month_filter (selectedMonth p) xs)))
   \<and> view_v4 h p xs =
     sort_stage_v4 h (sortBy p) (sortDir p)
       (search_filter_v4 (search p) (month_filter_v4 h (selectedMonth p) xs))"
  by (simp add: view_v3_def view_v4_def sort_stage_def search_filter_def type_filter_def
      month_filter_def sort_stage_v4_def search_filter_v4_def month_filter_v4_def Let_def)

lemma month_stage_example: "month_filter ''03'' [salary, coffee, tea] = [coffee, tea]"
  by (simp add: month_filter_def month_matches_def salary_def coffee_def tea_def)

lemma type_stage_example: "type_filter ''expense'' [coffee, tea] = [coffee, tea]"
  by (simp add: type_filter_def is_expense_def coffee_def tea_def)

lemma search_stage_example: "search_filter ''E'' [coffee, tea] = [coffee, tea]"
  by (simp add: search_filter_def title_matches_def toLowerCase_def lower_char_def trim_def
      is_space_def coffee_def tea_def)

lemma sort_stage_example: "sort_stage ''date'' ''desc'' [coffee, tea] = [tea, coffee]"
  by (simp add: sort_stage_def sort_js_def compare_v2_def negative_def coffee_def tea_def)

lemmas host_eval = utc_host_def days_in_month_def is_leap_def is_digit_def digits_val_def
  days_from_civil_def padStart2_def decimal.simps

lemma month_stage_v4_example:
  "month_filter_v4 utc_host ''03'' [salary, coffee, tea] = [coffee, tea]"
  by (simp add: month_filter_v4_def month_matches_v4_def host_eval salary_def coffee_def tea_def)

lemma search_stage_v4_example: "search_filter_v4 ''E'' [coffee, tea] = [coffee, tea]"
  by (simp add: search_filter_v4_def text_matches_v4_def toLowerCase_def lower_char_def trim_def
      is_space_def coffee_def tea_def)

lemma sort_stage_v4_example:
  "sort_stage_v4 utc_host ''date'' ''desc'' [coffee, tea] = [tea, coffee]"
  by (simp add: sort_stage_v4_def sort_js_def compare_v4_def negative_def host_eval
      coffee_def tea_def)

theorem view_composes_stages_witness:
  "view_v3 march_expenses [salary, coffee, tea] = [tea, coffee] \<and>
   view_v4 utc_host march_expenses [salary, coffee, tea] = [tea, coffee]"
  using view_composes_stages [of march_expenses "[salary, coffee, tea]" utc_host]
  by (simp add: march_expenses_def month_stage_example type_stage_example search_stage_example
      sort_stage_example month_stage_v4_example search_stage_v4_example sort_stage_v4_example)

text \<open>
  A consistent comparator gives \<open>0\<close> for a record compared with itself. The comparator
  of v1 never gives \<open>0\<close>; that of v2 and v3 does.
\<close>

lemma js_lt_irrefl: "\<not> js_lt n n"
  by (cases n) simp_all

lemma compare_v1_not_reflexive: "compare_v1 sb sd a a = Num (- 1)"
  by (simp add: compare_v1_def Let_def js_lt_irrefl)

lemma compare_v1_never_zero: "compare_v1 sb sd a b \<noteq> Num 0"
  by (simp add: compare_v1_def Let_def)

lemma compare_v2_reflexive: "compare_v2 sb sd a a = Num 0"
  by (simp add: compare_v2_def Let_def js_lt_irrefl)

text \<open>
  C3 fails in v1. In v1-v3 the view is computed from the records and the controls alone,
  but the comparator of v1 returns \<open>-1\<close> for two records with equal keys, whichever
  comes first, so the two records of equal amount come out in reverse order. The
  comparator of v2 returns \<open>0\<close> there and the order is kept.
\<close>

theorem view_v1_reverses_ties:
  "compare_v1 ''amount'' ''asc'' (coffee\<lparr>amount := AStr ''40''\<rparr>) (tea\<lparr>amount := AStr ''40''\<rparr>) = Num (- 1) \<and>
   compare_v1 ''amount'' ''asc'' (tea\<lparr>amount := AStr ''40''\<rparr>) (coffee\<lparr>amount := AStr ''40''\<rparr>) = Num (- 1) \<and>
   map eid (view_v1 by_amount_asc [coffee\<lparr>amount := AStr ''40''\<rparr>, tea\<lparr>amount := AStr ''40''\<rparr>]) = [2, 1] \<and>
   map eid (view_v2 by_amount_asc [coffee, tea]) = [1, 2]"
  by (simp add: pipeline_eval by_amount_asc_def coffee_def tea_def num_eval)

subsection \<open>Stability of the sort from v2 on\<close>

text \<open>
  With the comparator of v2 and v3 the sort keeps the input order of the records with
  equal keys: for every key, the records carrying it appear in the sorted view in the
  order they have in the filtered, unsorted view.
\<close>

lemma insert_js_keeps_order:
  fixes f :: "'a \<Rightarrow> 'k::linorder"
  assumes "\<And>y. y \<in> set ys \<Longrightarrow> negative (cmp x y) \<longleftrightarrow> before up f x y"
    and "sorted_wrt (in_order up f) ys"
  shows "sorted_wrt (in_order up f) (insert_js cmp x ys)"
  using assms
  by (induction ys) (auto simp: set_insert_js in_order_def before_def split: if_splits)

lemma insert_js_stable:
  fixes f :: "'a \<Rightarrow> 'k::linorder"
  assumes "\<And>y. y \<in> set ys \<Longrightarrow> negative (cmp x y) \<longleftrightarrow> before up f x y"
    and "sorted_wrt (in_order up f) ys"
  shows "filter (\<lambda>e. f e = k) (insert_js cmp x ys) = filter (\<lambda>e. f e = k) (ys @ [x])"
  using assms
proof (induction ys)
  case Nil
  then show ?case by simp
next
  case (Cons y ys)
  show ?case
  proof (cases "negative (cmp x y)")
    case True
    then have xy: "before up f x y" using Cons.prems(1) by simp
    have "f z \<noteq> f x" if "z \<in> set (y # ys)" for z
      using that xy Cons.prems(2) by (auto simp: in_order_def before_def split: if_splits)
    then have "filter (\<lambda>e. f e = f x) (y # ys) = []"
      by (auto simp: filter_empty_conv)
    with True show ?thesis by auto
  next
    case False
    with Cons show ?thesis by simp
  qed
qed

lemma sort_js_stable_aux:
  fixes f :: "'a \<Rightarrow> 'k::linorder"
  assumes "\<And>x y. x \<in> set (acc @ xs) \<Longrightarrow> y \<in> set (acc @ xs) \<Longrightarrow>
             negative (cmp x y) \<longleftrightarrow> before up f x y"
    and "sorted_wrt (in_order up f) acc"
  shows "filter (\<lambda>e. f e = k) (foldl (\<lambda>placed x. insert_js cmp x placed) acc xs) =
           filter (\<lambda>e. f e = k) (acc @ xs)"
  using assms
proof (induction xs arbitrary: acc)
  case Nil
  then show ?case by simp
next
  case (Cons x xs)
  have key: "\<And>y. y \<in> set acc \<Longrightarrow> negative (cmp x y) \<longleftrightarrow> before up f x y"
    using Cons.prems(1) by simp
  have "filter (\<lambda>e. f e = k) (foldl (\<lambda>placed x. insert_js cmp x placed) (insert_js cmp x acc) xs) =
          filter (\<lambda>e. f e = k) (insert_js cmp x acc @ xs)"
  proof (rule Cons.IH)
    show "sorted_wrt (in_order up f) (insert_js cmp x acc)"
      using key Cons.prems(2) by (rule insert_js_keeps_order)
    show "\<And>a b. a \<in> set (insert_js cmp x acc @ xs) \<Longrightarrow> b \<in> set (insert_js cmp x acc @ xs) \<Longrightarrow>
             negative (cmp a b) \<longleftrightarrow> before up f a b"
      using Cons.prems(1) by (simp add: set_insert_js)
  qed
  then show ?case
    using insert_js_stable [of acc cmp x up f k, OF key Cons.prems(2)] by simp
qed

lemma sort_js_stable:
  fixes f :: "'a \<Rightarrow> 'k::linorder"
  assumes "\<And>x y. x \<in> set xs \<Longrightarrow> y \<in> set xs \<Longrightarrow> negative (cmp x y) \<longleftrightarrow> before up f x y"
  shows "filter (\<lambda>e. f e = k) (sort_js cmp xs) = filter (\<lambda>e. f e = k) xs"
  unfolding sort_js_def using sort_js_stable_aux [of "[]" xs cmp up f k] assms by simp

lemma compare_v2_by_date:
  "sb \<noteq> ''amount'' \<Longrightarrow> negative (compare_v2 sb sd a b) \<longleftrightarrow> before (sd = ''asc'') date a b"
  by (auto simp: compare_v2_def negative_def before_def Let_def)

lemma compare_v2_by_amount:
  "\<not> isNaN (Number_amt (amount a)) \<Longrightarrow> \<not> isNaN (Number_amt (amount b)) \<Longrightarrow>
   negative (compare_v2 ''amount'' sd a b) \<longleftrightarrow> before (sd = ''asc'') amount_value a b"
  by (cases "Number_amt (amount a)"; cases "Number_amt (amount b)")
    (auto simp: compare_v2_def negative_def before_def amount_value_def Let_def)

lemma view_v2_unsorted_subset: "set (view_v2 (p\<lparr>sortBy := []\<rparr>) xs) \<subseteq> set xs"
  by (auto simp: view_v2_def Let_def)

lemma view_v2_sorted:
  "sortBy p \<noteq> [] \<Longrightarrow>
   view_v2 p xs = sort_js (compare_v2 (sortBy p) (sortDir p)) (view_v2 (p\<lparr>sortBy := []\<rparr>) xs)"
  by (simp add: view_v2_def Let_def)

lemma view_v2_stable_by_date:
  assumes "sortBy p \<noteq> []" "sortBy p \<noteq> ''amount''"
  shows "filter (\<lambda>e. date e = d) (view_v2 p xs) =
         filter (\<lambda>e. date e = d) (view_v2 (p\<lparr>sortBy := []\<rparr>) xs)"
  unfolding view_v2_sorted [OF assms(1)]
  by (rule sort_js_stable [where up = "sortDir p = ''asc''"]) (simp add: compare_v2_by_date assms(2))

lemma view_v2_stable_by_amount:
  assumes "sortBy p = ''amount''" "\<forall>e \<in> set xs. \<not> isNaN (Number_amt (amount e))"
  shows "filter (\<lambda>e. amount_value e = r) (view_v2 p xs) =
         filter (\<lambda>e. amount_value e = r) (view_v2 (p\<lparr>sortBy := []\<rparr>) xs)"
proof -
  have ne: "sortBy p \<noteq> []" using assms(1) by auto
  show ?thesis
    unfolding view_v2_sorted [OF ne] assms(1)
  proof (rule sort_js_stable [where up = "sortDir p = ''asc''"])
    fix x y
    assume "x \<in> set (view_v2 (p\<lparr>sortBy := []\<rparr>) xs)" "y \<in> set (view_v2 (p\<lparr>sortBy := []\<rparr>) xs)"
    then have "x \<in> set xs" "y \<in> set xs" using view_v2_unsorted_subset by blast+
    then show "negative (compare_v2 ''amount'' (sortDir p) x y) \<longleftrightarrow>
               before (sortDir p = ''asc'') amount_value x y"
      using assms(2) by (simp add: compare_v2_by_amount)
  qed
qed

end
